theory Spec2Isabelle
  imports Main "HOL-Library.Sublist"
begin

section \<open>JavaScript values as the handler sees them\<close>

text \<open>
  The route handler of \<^verbatim>\<open>src/lib/routes/bilibili/dynamic.ts\<close> works on untyped JSON:
  every feed entry, its \<^verbatim>\<open>card\<close> payload and the nested \<^verbatim>\<open>origin\<close> payload are whatever
  \<^verbatim>\<open>JSONbig.parse\<close> returned. The model keeps that: a payload is a \<open>jv\<close> tree, and
  every operator of the source (\<^verbatim>\<open>||\<close>, \<^verbatim>\<open>&&\<close>, \<^verbatim>\<open>+\<close>, template literals, property
  access, optional chaining) is given its JavaScript meaning on it.

  A string is a list of UTF-16 code units (\<open>ustr\<close>), as \<^verbatim>\<open>.length\<close> and a regular
  expression without the \<^verbatim>\<open>u\<close> flag count it; \<open>u ''...''\<close> writes an ASCII literal.
  Numbers are the integers; \<open>JNaN\<close> is the one non-integer the source can compute
  (\<^verbatim>\<open>undefined + undefined\<close>). \<^verbatim>\<open>JSONbig.parse\<close> keeps an integer written with more
  than 15 characters as a \<^verbatim>\<open>BigNumber\<close>, which prints its digits as long as it is
  below \<^verbatim>\<open>1e21\<close>; both kinds are a \<open>JNum\<close>.

  An object is an association list read with \<open>map_of\<close>. \<^verbatim>\<open>JSONbig.parse\<close> makes its
  objects with \<^verbatim>\<open>Object.create(null)\<close>: they inherit nothing, no \<^verbatim>\<open>toString\<close> and no
  \<^verbatim>\<open>valueOf\<close>, so converting one to a string or to a number (in a template
  literal, under \<^verbatim>\<open>+\<close>, under \<^verbatim>\<open><\<close>) throws a \<^verbatim>\<open>TypeError\<close>. Its arrays are
  ordinary arrays.
\<close>

type_synonym ustr = "nat list"

abbreviation u :: "string \<Rightarrow> ustr" where
  "u s \<equiv> map of_char s"

datatype jv =
    JUndef
  | JNull
  | JBool bool
  | JNum int
  | JNaN
  | JStr ustr
  | JArr "jv list"
  | JObj "(ustr \<times> jv) list"

text \<open>
  \<open>TypeError\<close>: a property read on \<^verbatim>\<open>undefined\<close>/\<^verbatim>\<open>null\<close>, a call of something that is
  not a function, a \<^verbatim>\<open>for...of\<close> over a value that is not iterable, the conversion
  of an object to a string or a number.
  \<open>SyntaxError\<close>: \<^verbatim>\<open>JSONbig.parse\<close> or \<^verbatim>\<open>new RegExp\<close> on bad text.
  \<open>Rejected\<close>: a rejected promise of an external fetch.
  \<open>NotModelled\<close> is not a JavaScript error: it marks the inputs on which this
  theory does not say what JavaScript does (a regular expression outside the
  fragment of \<open>new_RegExp\<close>, a \<^verbatim>\<open>length\<close> that is a string, a number printed with
  an exponent).
\<close>

datatype error = TypeError | SyntaxError | Rejected | NotModelled

definition rbind :: "error + 'a \<Rightarrow> ('a \<Rightarrow> error + 'b) \<Rightarrow> error + 'b" where
  "rbind m f = (case m of Inl e \<Rightarrow> Inl e | Inr x \<Rightarrow> f x)"

fun mapM :: "('a \<Rightarrow> error + 'b) \<Rightarrow> 'a list \<Rightarrow> error + 'b list" where
  "mapM f [] = Inr []"
| "mapM f (x # xs) = rbind (f x) (\<lambda>y. rbind (mapM f xs) (\<lambda>ys. Inr (y # ys)))"

subsection \<open>Coercions\<close>

definition nullish :: "jv \<Rightarrow> bool" where
  "nullish v = (v = JUndef \<or> v = JNull)"

fun truthy :: "jv \<Rightarrow> bool" where
  "truthy JUndef = False"
| "truthy JNull = False"
| "truthy (JBool b) = b"
| "truthy (JNum i) = (i \<noteq> 0)"
| "truthy JNaN = False"
| "truthy (JStr s) = (s \<noteq> [])"
| "truthy (JArr xs) = True"
| "truthy (JObj kvs) = True"

fun digits :: "nat \<Rightarrow> ustr" where
  "digits n = (if n < 10 then [48 + n] else digits (n div 10) @ [48 + n mod 10])"

declare digits.simps [simp del]

definition show_int :: "int \<Rightarrow> ustr" where
  "show_int i = (if i < 0 then u ''-'' @ digits (nat (- i)) else digits (nat i))"

fun join :: "ustr \<Rightarrow> ustr list \<Rightarrow> ustr" where
  "join sep [] = []"
| "join sep [s] = s"
| "join sep (s # t # ss) = s @ sep @ join sep (t # ss)"

text \<open>
  \<^verbatim>\<open>String(v)\<close>, the conversion a template literal \<^verbatim>\<open>`${v}`\<close> applies to \<open>v\<close>. An
  object has no \<^verbatim>\<open>toString\<close> to call, which is a \<open>TypeError\<close>; an array joins the
  conversions of its elements with commas (\<^verbatim>\<open>undefined\<close> and \<^verbatim>\<open>null\<close> give the empty
  string there), and so throws if one of them does. An integer from \<^verbatim>\<open>1e21\<close> on is
  printed with an exponent.
\<close>

fun to_string :: "jv \<Rightarrow> error + ustr"
  and to_strings :: "jv list \<Rightarrow> error + ustr list" where
  "to_string JUndef = Inr (u ''undefined'')"
| "to_string JNull = Inr (u ''null'')"
| "to_string (JBool b) = Inr (if b then u ''true'' else u ''false'')"
| "to_string (JNum i) =
     (if - 1000000000000000000000 < i \<and> i < 1000000000000000000000 then Inr (show_int i)
      else Inl NotModelled)"
| "to_string JNaN = Inr (u ''NaN'')"
| "to_string (JStr s) = Inr s"
| "to_string (JArr xs) = rbind (to_strings xs) (\<lambda>ss. Inr (join (u '','') ss))"
| "to_string (JObj kvs) = Inl TypeError"
| "to_strings [] = Inr []"
| "to_strings (x # xs) =
     rbind (if x = JUndef \<or> x = JNull then Inr [] else to_string x) (\<lambda>s.
     rbind (to_strings xs) (\<lambda>ss. Inr (s # ss)))"

text \<open>
  A template literal: its literal chunks and its substitutions, converted and
  concatenated from left to right.
\<close>

datatype part = Lit ustr | Val jv

fun template :: "part list \<Rightarrow> error + ustr" where
  "template [] = Inr []"
| "template (Lit s # ps) = rbind (template ps) (\<lambda>r. Inr (s @ r))"
| "template (Val v # ps) = rbind (to_string v) (\<lambda>s. rbind (template ps) (\<lambda>r. Inr (s @ r)))"

fun is_str :: "jv \<Rightarrow> bool" where
  "is_str (JStr s) = True"
| "is_str v = False"

text \<open>
  \<^verbatim>\<open>ToPrimitive\<close>, as \<^verbatim>\<open>+\<close> applies it to its operands: an array becomes its string,
  an object throws, and a \<^verbatim>\<open>BigNumber\<close> (an integer that took more than 15
  characters, sign included) becomes the string that its \<^verbatim>\<open>valueOf\<close> returns.
\<close>

definition big :: "int \<Rightarrow> bool" where
  "big i = (i \<le> - 100000000000000 \<or> 1000000000000000 \<le> i)"

fun to_primitive :: "jv \<Rightarrow> error + jv" where
  "to_primitive (JArr xs) = rbind (to_string (JArr xs)) (\<lambda>s. Inr (JStr s))"
| "to_primitive (JObj kvs) = Inl TypeError"
| "to_primitive (JNum i) =
     (if big i then rbind (to_string (JNum i)) (\<lambda>s. Inr (JStr s)) else Inr (JNum i))"
| "to_primitive v = Inr v"

text \<open>\<^verbatim>\<open>Number(v)\<close> of a primitive that is not a string; \<open>None\<close> is \<^verbatim>\<open>NaN\<close>.\<close>

fun prim_number :: "jv \<Rightarrow> int option" where
  "prim_number JNull = Some 0"
| "prim_number (JBool b) = Some (if b then 1 else 0)"
| "prim_number (JNum i) = Some i"
| "prim_number v = None"

text \<open>The binary \<^verbatim>\<open>+\<close>: concatenation as soon as one side is a string, else a sum.\<close>

definition js_add :: "jv \<Rightarrow> jv \<Rightarrow> error + jv" where
  "js_add a b =
     rbind (to_primitive a) (\<lambda>pa.
     rbind (to_primitive b) (\<lambda>pb.
       if is_str pa \<or> is_str pb
       then rbind (to_string pa) (\<lambda>sa. rbind (to_string pb) (\<lambda>sb. Inr (JStr (sa @ sb))))
       else Inr (case (prim_number pa, prim_number pb) of
                   (Some x, Some y) \<Rightarrow> JNum (x + y)
                 | _ \<Rightarrow> JNaN)))"

text \<open>\<^verbatim>\<open>a || b || ...\<close>: the first truthy operand, else the last one.\<close>

fun ors :: "jv list \<Rightarrow> jv" where
  "ors [] = JUndef"
| "ors [x] = x"
| "ors (x # y # ys) = (if truthy x then x else ors (y # ys))"

text \<open>
  \<^verbatim>\<open>a || rest\<close> where evaluating \<^verbatim>\<open>rest\<close> may throw: \<^verbatim>\<open>rest\<close> is evaluated only if
  \<^verbatim>\<open>a\<close> is falsy.
\<close>

definition or_else :: "jv \<Rightarrow> error + jv \<Rightarrow> error + jv" where
  "or_else a rest = (if truthy a then Inr a else rest)"

text \<open>\<^verbatim>\<open>a && b && ...\<close>: the first falsy operand, else the last one.\<close>

fun ands :: "jv list \<Rightarrow> jv" where
  "ands [] = JUndef"
| "ands [x] = x"
| "ands (x # y # ys) = (if truthy x then ands (y # ys) else x)"

subsection \<open>Property access\<close>

text \<open>
  \<open>field v k\<close> is \<^verbatim>\<open>v.k\<close> for a \<open>v\<close> that is neither \<^verbatim>\<open>undefined\<close> nor \<^verbatim>\<open>null\<close>, and for
  the identifiers the handler reads (none of them is inherited from a prototype,
  \<^verbatim>\<open>length\<close> apart). \<open>get\<close> is the plain read \<^verbatim>\<open>v.k\<close>, which throws on
  \<^verbatim>\<open>undefined\<close>/\<^verbatim>\<open>null\<close>; \<open>getq\<close> is the optional chain \<^verbatim>\<open>v?.k\<close>; \<open>idx\<close> is \<^verbatim>\<open>v[i]\<close>.
\<close>

fun field :: "jv \<Rightarrow> ustr \<Rightarrow> jv" where
  "field (JObj kvs) k = (case map_of kvs k of Some v \<Rightarrow> v | None \<Rightarrow> JUndef)"
| "field (JArr xs) k = (if k = u ''length'' then JNum (int (length xs)) else JUndef)"
| "field (JStr s) k = (if k = u ''length'' then JNum (int (length s)) else JUndef)"
| "field v k = JUndef"

definition get :: "jv \<Rightarrow> ustr \<Rightarrow> error + jv" where
  "get v k = (if nullish v then Inl TypeError else Inr (field v k))"

definition getq :: "jv \<Rightarrow> ustr \<Rightarrow> jv" where
  "getq v k = (if nullish v then JUndef else field v k)"

fun idx :: "jv \<Rightarrow> nat \<Rightarrow> jv" where
  "idx (JArr xs) i = (if i < length xs then xs ! i else JUndef)"
| "idx (JStr s) i = (if i < length s then JStr [s ! i] else JUndef)"
| "idx (JObj kvs) i = field (JObj kvs) (digits i)"
| "idx v i = JUndef"

section \<open>The field extractors (lines 139 to 145)\<close>

text \<open>
  \<^verbatim>\<open>getTitle = (data) => (data ? data.title || data.description || data.content
     || (data.vest && data.vest.content) || '' : '')\<close>
\<close>

definition getTitle :: "jv \<Rightarrow> jv" where
  "getTitle d =
     (if truthy d
      then ors [field d (u ''title''), field d (u ''description''), field d (u ''content''),
                ands [field d (u ''vest''), field (field d (u ''vest'')) (u ''content'')],
                JStr []]
      else JStr [])"

text \<open>
  \<^verbatim>\<open>getDes = (data) => data.dynamic || data.desc || data.description || data.content
     || data.summary
     || (data.vest && data.vest.content)
        + (data.sketch && `<br>${data.sketch.title}<br>${data.sketch.desc_text}`)
     || data.intro || ''\<close>

  \<^verbatim>\<open>+\<close> binds tighter than \<^verbatim>\<open>||\<close>: the vest text and the sketch suffix are one
  operand of the chain. It is evaluated only when the five slots before it are
  falsy, the suffix before the sum.
\<close>

definition sketch_suffix :: "jv \<Rightarrow> error + jv" where
  "sketch_suffix d =
     (if truthy (field d (u ''sketch''))
      then rbind (template [Lit (u ''<br>''), Val (field (field d (u ''sketch'')) (u ''title'')),
                            Lit (u ''<br>''),
                            Val (field (field d (u ''sketch'')) (u ''desc_text''))])
             (\<lambda>s. Inr (JStr s))
      else Inr (field d (u ''sketch'')))"

definition vest_content :: "jv \<Rightarrow> jv" where
  "vest_content d = ands [field d (u ''vest''), field (field d (u ''vest'')) (u ''content'')]"

definition getDes :: "jv \<Rightarrow> error + jv" where
  "getDes d =
     (if nullish d then Inl TypeError
      else or_else (field d (u ''dynamic''))
          (or_else (field d (u ''desc''))
          (or_else (field d (u ''description''))
          (or_else (field d (u ''content''))
          (or_else (field d (u ''summary''))
          (rbind (sketch_suffix d) (\<lambda>suffix.
           rbind (js_add (vest_content d) suffix) (\<lambda>v.
           or_else v (Inr (ors [field d (u ''intro''), JStr []]))))))))))"

text \<open>
  \<^verbatim>\<open>getOriginDes = (data) => (data && (data.apiSeasonInfo && data.apiSeasonInfo.title
     && `//...: ${data.apiSeasonInfo.title}`)
     + (data.index_title && `<br>${data.index_title}`)) || ''\<close>

  \<open>zh_forwarded\<close> is the source's literal \<^verbatim>\<open>//\<close>, U+8F6C U+53D1 U+81EA, \<^verbatim>\<open>: \<close>
  ("forwarded from").
\<close>

definition zh_forwarded :: ustr where
  "zh_forwarded = u ''//'' @ [0x8F6C, 0x53D1, 0x81EA] @ u '': ''"

definition season_text :: "jv \<Rightarrow> error + jv" where
  "season_text d =
     (if truthy (ands [field d (u ''apiSeasonInfo''),
                       field (field d (u ''apiSeasonInfo'')) (u ''title'')])
      then rbind (template [Lit zh_forwarded,
                            Val (field (field d (u ''apiSeasonInfo'')) (u ''title''))])
             (\<lambda>s. Inr (JStr s))
      else Inr (ands [field d (u ''apiSeasonInfo''),
                      field (field d (u ''apiSeasonInfo'')) (u ''title'')]))"

definition index_text :: "jv \<Rightarrow> error + jv" where
  "index_text d =
     (if truthy (field d (u ''index_title''))
      then rbind (template [Lit (u ''<br>''), Val (field d (u ''index_title''))])
             (\<lambda>s. Inr (JStr s))
      else Inr (field d (u ''index_title'')))"

definition getOriginDes :: "jv \<Rightarrow> error + jv" where
  "getOriginDes d =
     (if truthy d
      then rbind (season_text d) (\<lambda>a.
           rbind (index_text d) (\<lambda>b.
           rbind (js_add a b) (\<lambda>s.
           Inr (ors [s, JStr []]))))
      else Inr (JStr []))"

text \<open>
  \<^verbatim>\<open>getOriginName = (data) => data.uname || (data.author && data.author.name)
     || (data.upper && data.upper.name)
     || (data.user && (data.user.uname || data.user.name))
     || (data.owner && data.owner.name) || ''\<close>
\<close>

definition getOriginName_val :: "jv \<Rightarrow> jv" where
  "getOriginName_val d =
     ors [field d (u ''uname''),
          ands [field d (u ''author''), field (field d (u ''author'')) (u ''name'')],
          ands [field d (u ''upper''), field (field d (u ''upper'')) (u ''name'')],
          ands [field d (u ''user''),
                ors [field (field d (u ''user'')) (u ''uname''),
                     field (field d (u ''user'')) (u ''name'')]],
          ands [field d (u ''owner''), field (field d (u ''owner'')) (u ''name'')],
          JStr []]"

definition getOriginName :: "jv \<Rightarrow> error + jv" where
  "getOriginName d = (if nullish d then Inl TypeError else Inr (getOriginName_val d))"

text \<open>\<^verbatim>\<open>getOriginTitle = (data) => (data.title ? `${data.title}<br>` : '')\<close>\<close>

definition getOriginTitle :: "jv \<Rightarrow> error + ustr" where
  "getOriginTitle d =
     (if nullish d then Inl TypeError
      else if truthy (field d (u ''title''))
      then template [Val (field d (u ''title'')), Lit (u ''<br>'')]
      else Inr [])"

section \<open>Built-in string functions the handler calls\<close>

text \<open>
  \<^verbatim>\<open>s.replaceAll('\r\n', '<br>')\<close> and \<^verbatim>\<open>s.replaceAll('\n', '<br>')\<close> (line 214): every
  occurrence, left to right, without overlap.
\<close>

fun crlf_to_br :: "ustr \<Rightarrow> ustr" where
  "crlf_to_br (c # d # cs) =
     (if c = 13 \<and> d = 10 then u ''<br>'' @ crlf_to_br cs else c # crlf_to_br (d # cs))"
| "crlf_to_br cs = cs"

fun lf_to_br :: "ustr \<Rightarrow> ustr" where
  "lf_to_br [] = []"
| "lf_to_br (c # cs) = (if c = 10 then u ''<br>'' @ lf_to_br cs else c # lf_to_br cs)"

text \<open>\<^verbatim>\<open>s.replace(/^http:/, 'https:')\<close> (line 195).\<close>

definition force_https :: "ustr \<Rightarrow> ustr" where
  "force_https s = (if prefix (u ''http:'') s then u ''https:'' @ drop 5 s else s)"

text \<open>
  The global \<^verbatim>\<open>unescape\<close> (ECMAScript B.2.1.2): \<^verbatim>\<open>%uXXXX\<close> and \<^verbatim>\<open>%XX\<close> with hexadecimal
  digits become the code unit they name, everything else is kept. The first
  argument of \<open>unescape_from\<close> counts the code units still to skip after a decoded
  escape.
\<close>

definition hexval :: "nat \<Rightarrow> nat option" where
  "hexval c =
     (if 48 \<le> c \<and> c \<le> 57 then Some (c - 48)
      else if 65 \<le> c \<and> c \<le> 70 then Some (c - 55)
      else if 97 \<le> c \<and> c \<le> 102 then Some (c - 87)
      else None)"

fun hexnum :: "nat \<Rightarrow> ustr \<Rightarrow> nat option" where
  "hexnum acc [] = Some acc"
| "hexnum acc (c # cs) =
     (case hexval c of None \<Rightarrow> None | Some v \<Rightarrow> hexnum (16 * acc + v) cs)"

definition decode_escape :: "ustr \<Rightarrow> (nat \<times> nat) option" where
  "decode_escape cs =
     (if 5 \<le> length cs \<and> hd cs = 117 \<and> hexnum 0 (take 4 (tl cs)) \<noteq> None
      then Some (the (hexnum 0 (take 4 (tl cs))), 5)
      else if 2 \<le> length cs \<and> hexnum 0 (take 2 cs) \<noteq> None
      then Some (the (hexnum 0 (take 2 cs)), 2)
      else None)"

fun unescape_from :: "nat \<Rightarrow> ustr \<Rightarrow> ustr" where
  "unescape_from k [] = []"
| "unescape_from (Suc k) (c # cs) = unescape_from k cs"
| "unescape_from 0 (c # cs) =
     (if c = 37
      then (case decode_escape cs of
              Some (v, n) \<Rightarrow> v # unescape_from n cs
            | None \<Rightarrow> c # unescape_from 0 cs)
      else c # unescape_from 0 cs)"

definition unescape :: "jv \<Rightarrow> error + ustr" where
  "unescape v = rbind (to_string v) (\<lambda>s. Inr (unescape_from 0 s))"

text \<open>
  \<^verbatim>\<open>for (const x of v)\<close>: an array gives its elements, a string its code points
  (a surrogate pair is one step); anything else a JSON value can be is not
  iterable.
\<close>

fun code_points :: "ustr \<Rightarrow> ustr list" where
  "code_points (h # l # cs) =
     (if 0xD800 \<le> h \<and> h < 0xDC00 \<and> 0xDC00 \<le> l \<and> l < 0xE000
      then [h, l] # code_points cs
      else [h] # code_points (l # cs))"
| "code_points [c] = [[c]]"
| "code_points [] = []"

fun iterate :: "jv \<Rightarrow> error + jv list" where
  "iterate (JArr xs) = Inr xs"
| "iterate (JStr s) = Inr (map JStr (code_points s))"
| "iterate v = Inl TypeError"

text \<open>
  The number of \<^verbatim>\<open>i = 0, 1, 2, ...\<close> with \<^verbatim>\<open>i < n\<close>, for the \<^verbatim>\<open>n\<close> that a
  \<^verbatim>\<open>.length\<close> read returned. An array or a string has a number there; an object
  has whatever its \<^verbatim>\<open>length\<close> key holds, and anything else \<^verbatim>\<open>undefined\<close>. The
  comparison converts \<^verbatim>\<open>n\<close> to a number: an object throws, \<^verbatim>\<open>undefined\<close> is
  \<^verbatim>\<open>NaN\<close> and \<^verbatim>\<open>null\<close> is 0 (no round); the number a string, an array or a
  \<^verbatim>\<open>BigNumber\<close> converts to is left out.
\<close>

fun loop_count :: "jv \<Rightarrow> error + nat" where
  "loop_count (JNum n) = (if big n \<and> 0 < n then Inl NotModelled else Inr (nat n))"
| "loop_count (JBool b) = Inr (if b then 1 else 0)"
| "loop_count (JStr s) = Inl NotModelled"
| "loop_count (JArr xs) = Inl NotModelled"
| "loop_count (JObj kvs) = Inl TypeError"
| "loop_count v = Inr 0"

section \<open>Regular expressions: the fragment the emoji loop can build\<close>

text \<open>
  Line 219 builds the source text of a pattern from an emoji token:
  \<^verbatim>\<open>`\\${item.text}`.replaceAll(/\\?/g, '\\?')\<close>. The template literal puts one
  backslash before the token. The regular expression literal \<^verbatim>\<open>/\\?/g\<close> is "an
  optional backslash": it matches a backslash where there is one and the empty
  string at every other position, the end of the string included, and every match
  is replaced by the two characters \<^verbatim>\<open>\?\<close>.
\<close>

definition optional_backslash_to_escaped_qm :: "ustr \<Rightarrow> ustr" where
  "optional_backslash_to_escaped_qm s =
     concat (map (\<lambda>c. if c = 92 then [92, 63] else [92, 63, c]) s) @ [92, 63]"

definition emoji_pattern :: "jv \<Rightarrow> error + ustr" where
  "emoji_pattern text =
     rbind (template [Lit [92], Val text]) (\<lambda>s. Inr (optional_backslash_to_escaped_qm s))"

text \<open>
  Such a source text holds no backslash but in \<^verbatim>\<open>\?\<close>. \<open>new_RegExp\<close> is
  \<^verbatim>\<open>new RegExp(source, 'g')\<close> for the patterns made of \<^verbatim>\<open>\?\<close>, ordinary characters
  and character classes (with ranges and negation): an unterminated class, a
  range out of order and a lone final backslash are its \<open>SyntaxError\<close>; any other
  syntax is \<open>NotModelled\<close>. \<open>regexp_replaceAll\<close> is
  \<^verbatim>\<open>subject.replaceAll(re, replacement)\<close> for such a pattern and a replacement
  without \<^verbatim>\<open>$\<close>.
\<close>

datatype atom = Chr nat | Cls bool "(nat \<times> nat) list"

datatype mode = Top | InCls bool "(nat \<times> nat) list"

fun tokens :: "ustr \<Rightarrow> error + (bool \<times> nat) list" where
  "tokens [] = Inr []"
| "tokens [c] = (if c = 92 then Inl SyntaxError else Inr [(False, c)])"
| "tokens (c # d # cs) =
     (if c = 92
      then (if d = 63 then rbind (tokens cs) (\<lambda>ts. Inr ((True, d) # ts)) else Inl NotModelled)
      else rbind (tokens (d # cs)) (\<lambda>ts. Inr ((False, c) # ts)))"

definition metachars :: "nat list" where
  "metachars = u ''^$.*+?()[]{}|''"

fun compile :: "mode \<Rightarrow> (bool \<times> nat) list \<Rightarrow> error + atom list" where
  "compile Top [] = Inr []"
| "compile (InCls neg rs) [] = Inl SyntaxError"
| "compile Top ((e, c) # ts) =
     (if e then rbind (compile Top ts) (\<lambda>as. Inr (Chr c # as))
      else if c = 91
      then (if ts \<noteq> [] \<and> hd ts = (False, 94) then compile (InCls True []) (tl ts)
            else compile (InCls False []) ts)
      else if c \<in> set metachars then Inl NotModelled
      else rbind (compile Top ts) (\<lambda>as. Inr (Chr c # as)))"
| "compile (InCls neg rs) ((e, c) # ts) =
     (if \<not> e \<and> c = 93 then rbind (compile Top ts) (\<lambda>as. Inr (Cls neg (rev rs) # as))
      else (case ts of
              (e1, m) # (e2, b) # ts' \<Rightarrow>
                (if \<not> e1 \<and> m = 45 \<and> \<not> (\<not> e2 \<and> b = 93)
                 then (if b < c then Inl SyntaxError
                       else compile (InCls neg ((c, b) # rs)) ts')
                 else compile (InCls neg ((c, c) # rs)) ts)
            | _ \<Rightarrow> compile (InCls neg ((c, c) # rs)) ts))"

fun atom_matches :: "atom \<Rightarrow> nat \<Rightarrow> bool" where
  "atom_matches (Chr c) x = (x = c)"
| "atom_matches (Cls neg rs) x = (list_ex (\<lambda>(lo, hi). lo \<le> x \<and> x \<le> hi) rs \<noteq> neg)"

fun matches_here :: "atom list \<Rightarrow> ustr \<Rightarrow> bool" where
  "matches_here [] s = True"
| "matches_here (a # as) [] = False"
| "matches_here (a # as) (x # xs) = (atom_matches a x \<and> matches_here as xs)"

text \<open>
  Every atom consumes one code unit, so a match at a position has the length of
  the atom list; the scan resumes after it (the counter skips the matched units).
\<close>

fun replace_matches :: "atom list \<Rightarrow> ustr \<Rightarrow> nat \<Rightarrow> ustr \<Rightarrow> ustr" where
  "replace_matches as rep k [] = []"
| "replace_matches as rep (Suc k) (x # xs) = replace_matches as rep k xs"
| "replace_matches as rep 0 (x # xs) =
     (if matches_here as (x # xs) then rep @ replace_matches as rep (length as - 1) xs
      else x # replace_matches as rep 0 xs)"

definition new_RegExp :: "ustr \<Rightarrow> error + atom list" where
  "new_RegExp source =
     rbind (tokens source) (\<lambda>ts.
     rbind (compile Top ts) (\<lambda>as.
     Inr as))"

definition regexp_replaceAll :: "atom list \<Rightarrow> ustr \<Rightarrow> ustr \<Rightarrow> error + ustr" where
  "regexp_replaceAll as subject rep =
     (if as = [] \<or> 36 \<in> set rep then Inl NotModelled
      else Inr (replace_matches as rep 0 subject))"

section \<open>The handler (lines 110 to 290)\<close>

text \<open>
  The route parameters of lines 113 to 117, and what the handler takes from
  outside this file: \<^verbatim>\<open>JSONbig.parse\<close>, \<^verbatim>\<open>cacheIn.getArticleDataFromCvid\<close> (a promise,
  which may reject), \<^verbatim>\<open>utils.iframe\<close> (which returns the text of an
  \<^verbatim>\<open><iframe>\<close> element, or throws) and \<^verbatim>\<open>parseDate\<close>.
\<close>

record opts =
  showEmoji :: bool
  disableEmbed :: bool
  displayArticle :: bool
  useAvid :: bool
  directLink :: bool

record 'd env =
  JSONbig_parse :: "jv \<Rightarrow> error + jv"
  getArticleDataFromCvid :: "jv \<Rightarrow> jv \<Rightarrow> error + jv"
  utils_iframe :: "jv \<Rightarrow> error + ustr"
  parseDate :: "jv \<Rightarrow> 'd"

record 'd feed_item =
  title :: jv
  description :: ustr
  pubDate :: "'d option"
  link :: jv
  author :: jv

record 'd feed =
  feed_title :: ustr
  feed_link :: ustr
  feed_description :: ustr
  feed_image :: jv
  feed_item :: "'d feed_item list"


subsection \<open>Images (\<^verbatim>\<open>getImgs\<close>, lines 146 to 175)\<close>

definition img_tag :: "jv \<Rightarrow> error + ustr" where
  \<open>img_tag src = template [Lit (u ''<img src="''), Val src, Lit (u ''">'')]\<close>

definition pictures_imgs :: "jv \<Rightarrow> error + ustr" where
  "pictures_imgs pics =
     rbind (loop_count (field pics (u ''length''))) (\<lambda>n.
     rbind (mapM (\<lambda>i. rbind (get (idx pics i) (u ''img_src'')) img_tag) [0..<n]) (\<lambda>tags.
     Inr (concat tags)))"

definition image_urls_imgs :: "jv \<Rightarrow> error + ustr" where
  "image_urls_imgs urls =
     rbind (loop_count (field urls (u ''length''))) (\<lambda>n.
     rbind (mapM (\<lambda>i. img_tag (idx urls i)) [0..<n]) (\<lambda>tags.
     Inr (concat tags)))"

definition pic_img :: "jv \<Rightarrow> error + ustr" where
  "pic_img d = (if truthy (field d (u ''pic'')) then img_tag (field d (u ''pic'')) else Inr [])"

definition cover_img :: "jv \<Rightarrow> error + ustr" where
  "cover_img d =
     (if truthy (ands [field d (u ''cover''), field (field d (u ''cover'')) (u ''unclipped'')])
      then img_tag (field (field d (u ''cover'')) (u ''unclipped''))
      else if truthy (field d (u ''cover'')) then img_tag (field d (u ''cover''))
      else Inr [])"

definition sketch_img :: "jv \<Rightarrow> error + ustr" where
  "sketch_img d =
     (if truthy (ands [field d (u ''sketch''), field (field d (u ''sketch'')) (u ''cover_url'')])
      then img_tag (field (field d (u ''sketch'')) (u ''cover_url''))
      else Inr [])"

definition getImgs :: "jv \<Rightarrow> error + ustr" where
  "getImgs d =
     rbind (get d (u ''pictures'')) (\<lambda>pics.
     rbind (if truthy pics then pictures_imgs pics else Inr []) (\<lambda>a.
     rbind (if truthy (field d (u ''image_urls''))
            then image_urls_imgs (field d (u ''image_urls'')) else Inr []) (\<lambda>b.
     rbind (pic_img d) (\<lambda>c.
     rbind (cover_img d) (\<lambda>e.
     rbind (sketch_img d) (\<lambda>f.
     Inr (a @ b @ c @ e @ f)))))))"

subsection \<open>Payload selection, images of both payloads, inline video, permalink\<close>

text \<open>
  Lines 179 to 182: \<^verbatim>\<open>data = getTitle(parsed.item) ? parsed.item : parsed\<close> and
  \<^verbatim>\<open>origin = parsed.origin ? JSONbig.parse(parsed.origin) : null\<close>.
\<close>

definition select_data :: "jv \<Rightarrow> error + jv" where
  "select_data parsed =
     rbind (get parsed (u ''item'')) (\<lambda>it.
     Inr (if truthy (getTitle it) then it else parsed))"

definition parse_origin :: "'d env \<Rightarrow> jv \<Rightarrow> error + jv" where
  "parse_origin E parsed =
     rbind (get parsed (u ''origin'')) (\<lambda>po.
     if truthy po then JSONbig_parse E po else Inr JNull)"

text \<open>Lines 185 to 191.\<close>

definition imgHTML_of :: "jv \<Rightarrow> jv \<Rightarrow> error + ustr" where
  "imgHTML_of d origin =
     rbind (getImgs d) (\<lambda>a.
     rbind (if truthy origin then getImgs (ors [field origin (u ''item''), origin])
            else Inr []) (\<lambda>b.
     Inr (a @ b)))"

text \<open>Lines 193 to 196. No route parameter is read here.\<close>

definition videoHTML_of :: "jv \<Rightarrow> error + ustr" where
  \<open>videoHTML_of d =
     (if truthy (field d (u ''video_playurl''))
      then rbind (template [Lit (u ''<video width="''), Val (field d (u ''width'')),
                            Lit (u ''" height="''), Val (field d (u ''height'')),
                            Lit (u ''" controls><source src="'')]) (\<lambda>head.
           rbind (unescape (field d (u ''video_playurl''))) (\<lambda>first.
           rbind (unescape (field d (u ''video_playurl''))) (\<lambda>second.
           Inr (head @ force_https first @ u ''"><source src="'' @ second
                @ u ''"></video>''))))
      else Inr [])\<close>

text \<open>Lines 204 to 209: the permalink made from the dynamic id.\<close>

definition dynamic_link :: "jv \<Rightarrow> jv \<Rightarrow> error + jv" where
  "dynamic_link entry d =
     (if truthy (field d (u ''dynamic_id''))
      then rbind (template [Lit (u ''https://t.bilibili.com/''), Val (field d (u ''dynamic_id''))])
             (\<lambda>s. Inr (JStr s))
      else if truthy (getq (field entry (u ''desc'')) (u ''dynamic_id''))
      then rbind (template [Lit (u ''https://t.bilibili.com/''),
                            Val (field (field entry (u ''desc'')) (u ''dynamic_id''))])
             (\<lambda>s. Inr (JStr s))
      else Inr (JStr []))"

subsection \<open>Body text: line breaks, emoji, full article\<close>

text \<open>
  Line 214. \<^verbatim>\<open>getDes\<close> may return a number or an object; \<^verbatim>\<open>replaceAll\<close> exists on
  strings only.
\<close>

fun line_breaks :: "jv \<Rightarrow> error + ustr" where
  "line_breaks (JStr s) = Inr (lf_to_br (crlf_to_br s))"
| "line_breaks v = Inl TypeError"

definition emoji_img :: "jv \<Rightarrow> jv \<Rightarrow> error + ustr" where
  \<open>emoji_img text url =
     template [Lit (u ''<img alt="''), Val text, Lit (u ''" src="''), Val url,
               Lit (u ''"style="margin: -1px 1px 0px; display: inline-block; width: 20px; height: 20px; vertical-align: text-bottom;" title="" referrerpolicy="no-referrer">'')]\<close>

text \<open>
  Lines 217 to 222: one \<^verbatim>\<open>replaceAll\<close> per entry of \<^verbatim>\<open>emoji_details\<close>, in order; the
  pattern is built before the replacement text.
\<close>

fun emoji_loop :: "jv list \<Rightarrow> ustr \<Rightarrow> error + ustr" where
  "emoji_loop [] s = Inr s"
| "emoji_loop (e # es) s =
     rbind (get e (u ''text'')) (\<lambda>text.
     rbind (emoji_pattern text) (\<lambda>source.
     rbind (new_RegExp source) (\<lambda>re.
     rbind (emoji_img text (field e (u ''url''))) (\<lambda>img.
     rbind (regexp_replaceAll re s img) (\<lambda>s'.
     emoji_loop es s')))))"

text \<open>Lines 215 to 223: \<^verbatim>\<open>if (item.display.emoji_info && showEmoji)\<close>.\<close>

definition emoji_subst :: "opts \<Rightarrow> jv \<Rightarrow> ustr \<Rightarrow> error + ustr" where
  "emoji_subst opt entry s =
     rbind (get (field entry (u ''display'')) (u ''emoji_info'')) (\<lambda>info.
     if truthy info \<and> showEmoji opt
     then rbind (iterate (field info (u ''emoji_details''))) (\<lambda>es. emoji_loop es s)
     else Inr s)"

text \<open>
  Lines 263 to 265. What the fetch returns is not made by \<^verbatim>\<open>JSONbig.parse\<close>: a
  \<^verbatim>\<open>description\<close> that is an object or an array is left out.
\<close>

fun primitive :: "jv \<Rightarrow> bool" where
  "primitive (JArr xs) = False"
| "primitive (JObj kvs) = False"
| "primitive v = True"

definition full_article :: "'d env \<Rightarrow> opts \<Rightarrow> jv \<Rightarrow> jv \<Rightarrow> ustr \<Rightarrow> error + jv" where
  "full_article E opt uid d s =
     (if truthy (field d (u ''image_urls'')) \<and> displayArticle opt
      then rbind (getArticleDataFromCvid E (field d (u ''id'')) uid) (\<lambda>r.
           rbind (get r (u ''description'')) (\<lambda>text.
           if primitive text then Inr text else Inl NotModelled))
      else Inr (JStr s))"

subsection \<open>Link resolution (\<^verbatim>\<open>getUrl\<close>, lines 224 to 261)\<close>

text \<open>
  The labels are the source's literals: "video address", "article address",
  "audio address", "live room address", "campaign address", "address", each
  followed by the full-width colon U+FF1A.
\<close>

definition zh_address :: ustr where
  "zh_address = [0x5730, 0x5740, 0xFF1A]"

definition label_video :: ustr where
  "label_video = [0x89C6, 0x9891] @ zh_address"

definition label_article :: ustr where
  "label_article = [0x4E13, 0x680F] @ zh_address"

definition label_audio :: ustr where
  "label_audio = [0x97F3, 0x9891] @ zh_address"

definition label_live :: ustr where
  "label_live = [0x76F4, 0x64AD, 0x95F4] @ zh_address"

definition label_campaign :: ustr where
  "label_campaign = [0x6D3B, 0x52A8] @ zh_address"

text \<open>The line every branch returns, \<^verbatim>\<open>`<br>LABEL<a href=${url}>${url}</a>`\<close>.\<close>

definition anchor :: "ustr \<Rightarrow> jv \<Rightarrow> error + ustr" where
  "anchor label url =
     template [Lit (u ''<br>'' @ label @ u ''<a href=''), Val url, Lit (u ''>''), Val url,
               Lit (u ''</a>'')]"

text \<open>
  \<open>resolve_url\<close> is the dispatch of \<^verbatim>\<open>getUrl\<close>: the label and the URL of the first
  branch whose signal is truthy. \<^verbatim>\<open>getUrl\<close> returns the anchor line and, as its side
  effect \<^verbatim>\<open>directLink && (link = url)\<close>, overwrites the permalink: \<open>getUrl\<close> below
  takes the permalink and returns it with the fragment.

  Line 230: \<^verbatim>\<open>useAvid ? `av${data.aid}` : item?.desc?.bvid || item?.desc?.origin?.bvid\<close>.
\<close>

definition video_id :: "opts \<Rightarrow> jv \<Rightarrow> jv \<Rightarrow> error + jv" where
  "video_id opt entry d =
     (if useAvid opt
      then rbind (template [Lit (u ''av''), Val (field d (u ''aid''))]) (\<lambda>s. Inr (JStr s))
      else Inr (ors [getq (getq entry (u ''desc'')) (u ''bvid''),
                     getq (getq (getq entry (u ''desc'')) (u ''origin'')) (u ''bvid'')]))"

definition url_of :: "ustr \<Rightarrow> jv \<Rightarrow> error + jv" where
  "url_of base v = rbind (template [Lit base, Val v]) (\<lambda>s. Inr (JStr s))"

definition resolve_url :: "opts \<Rightarrow> jv \<Rightarrow> jv \<Rightarrow> error + (ustr \<times> jv) option" where
  "resolve_url opt entry d =
     (if \<not> truthy d then Inr None
      else if truthy (field d (u ''aid''))
      then rbind (video_id opt entry d) (\<lambda>id.
           rbind (url_of (u ''https://www.bilibili.com/video/'') id) (\<lambda>url.
           Inr (Some (label_video, url))))
      else if truthy (field d (u ''image_urls''))
      then rbind (url_of (u ''https://www.bilibili.com/read/cv'') (field d (u ''id''))) (\<lambda>url.
           Inr (Some (label_article, url)))
      else if truthy (field d (u ''upper''))
      then rbind (url_of (u ''https://www.bilibili.com/audio/au'') (field d (u ''id''))) (\<lambda>url.
           Inr (Some (label_audio, url)))
      else if truthy (field d (u ''roomid''))
      then rbind (url_of (u ''https://live.bilibili.com/'') (field d (u ''roomid''))) (\<lambda>url.
           Inr (Some (label_live, url)))
      else if truthy (field d (u ''sketch''))
      then Inr (Some (label_campaign, field (field d (u ''sketch'')) (u ''target_url'')))
      else if truthy (field d (u ''url''))
      then Inr (Some (zh_address, field d (u ''url'')))
      else Inr None)"

definition getUrl :: "opts \<Rightarrow> jv \<Rightarrow> jv \<Rightarrow> jv \<Rightarrow> error + (ustr \<times> jv)" where
  "getUrl opt entry lnk d =
     rbind (resolve_url opt entry d) (\<lambda>r.
     case r of
       None \<Rightarrow> Inr ([], lnk)
     | Some (label, url) \<Rightarrow>
         rbind (anchor label url) (\<lambda>line. Inr (line, if directLink opt then url else lnk)))"

text \<open>
  Line 145: \<^verbatim>\<open>getIframe = (data) => (!disableEmbed && data && data.aid
     ? `<br><br>${utils.iframe(data.aid)}<br>` : '')\<close>
\<close>

definition getIframe :: "'d env \<Rightarrow> opts \<Rightarrow> jv \<Rightarrow> error + ustr" where
  "getIframe E opt d =
     (if \<not> disableEmbed opt \<and> truthy d \<and> truthy (field d (u ''aid''))
      then rbind (utils_iframe E (field d (u ''aid''))) (\<lambda>s.
           Inr (u ''<br><br>'' @ s @ u ''<br>''))
      else Inr [])"

subsection \<open>The item (lines 267 to 279)\<close>

text \<open>
  Line 271: the text put after the body for a repost,
  \<^verbatim>\<open>origin && getOriginName(origin) ? `<br><br>//...: @${getOriginName(origin)}:
     ${getOriginTitle(origin.item || origin)}${getDes(origin.item || origin)}`
     : getOriginDes(origin)\<close>.
\<close>

definition originName_of :: "jv \<Rightarrow> error + jv" where
  "originName_of origin =
     (if truthy origin
      then rbind (getOriginName origin) (\<lambda>name.
           if truthy name
           then rbind (to_string name) (\<lambda>n.
                rbind (getOriginTitle (ors [field origin (u ''item''), origin])) (\<lambda>t.
                rbind (getDes (ors [field origin (u ''item''), origin])) (\<lambda>des.
                rbind (to_string des) (\<lambda>x.
                Inr (JStr (u ''<br><br>'' @ zh_forwarded @ u ''@'' @ n @ u '': '' @ t @ x))))))
           else getOriginDes origin)
      else getOriginDes origin)"

text \<open>
  Lines 269 to 275. The two \<^verbatim>\<open>getUrl\<close> calls run in the order of the template
  literal, main payload first, and \<^verbatim>\<open>link\<close> is read at line 277, after them.
\<close>

definition build_description ::
  "'d env \<Rightarrow> opts \<Rightarrow> jv \<Rightarrow> jv \<Rightarrow> jv \<Rightarrow> jv \<Rightarrow> jv \<Rightarrow> ustr \<Rightarrow> ustr \<Rightarrow> error + (ustr \<times> jv)" where
  "build_description E opt entry lnk d origin data_content imgHTML videoHTML =
     rbind (if truthy data_content then Inr data_content else getDes d) (\<lambda>body.
     rbind (originName_of origin) (\<lambda>originName.
     let imgHTMLSource = (if imgHTML \<noteq> [] then u ''<br>'' @ imgHTML else []);
         videoHTMLSource = (if videoHTML \<noteq> [] then u ''<br>'' @ videoHTML else [])
     in rbind (template [Val body, Val originName, Lit (u ''<br>'')]) (\<lambda>head.
        rbind (getUrl opt entry lnk d) (\<lambda>r1.
        rbind (getUrl opt entry (snd r1) origin) (\<lambda>r2.
        rbind (getIframe E opt d) (\<lambda>f1.
        rbind (getIframe E opt origin) (\<lambda>f2.
        Inr (head @ fst r1 @ fst r2 @ f1 @ f2 @ imgHTMLSource @ videoHTMLSource,
             snd r2))))))))"

definition pubDate_of :: "'d env \<Rightarrow> jv \<Rightarrow> 'd option" where
  "pubDate_of E entry =
     (if truthy (getq (field entry (u ''desc'')) (u ''timestamp''))
      then Some (parseDate E (field (field entry (u ''desc'')) (u ''timestamp'')))
      else None)"

text \<open>
  The callback of \<^verbatim>\<open>cards.map\<close> (lines 178 to 280), for one entry: \<open>normalize\<close>.
  \<open>normalize_parsed\<close> is what follows line 179 and \<open>item_of\<close> what follows line 182,
  once the payload \<open>d\<close> and the origin are chosen.
\<close>

definition data_content_of :: "'d env \<Rightarrow> opts \<Rightarrow> jv \<Rightarrow> jv \<Rightarrow> jv \<Rightarrow> error + jv" where
  "data_content_of E opt uid entry d =
     rbind (getDes d) (\<lambda>des.
     rbind (line_breaks des) (\<lambda>s0.
     rbind (emoji_subst opt entry s0) (\<lambda>s1.
     full_article E opt uid d s1)))"

definition item_of :: "'d env \<Rightarrow> opts \<Rightarrow> jv \<Rightarrow> jv \<Rightarrow> jv \<Rightarrow> jv \<Rightarrow> jv \<Rightarrow> error + 'd feed_item" where
  "item_of E opt uid auth entry d origin =
     rbind (imgHTML_of d origin) (\<lambda>imgHTML.
     rbind (videoHTML_of d) (\<lambda>videoHTML.
     rbind (dynamic_link entry d) (\<lambda>lnk.
     rbind (data_content_of E opt uid entry d) (\<lambda>data_content.
     rbind (build_description E opt entry lnk d origin data_content imgHTML videoHTML) (\<lambda>r.
     Inr \<lparr>title = getTitle d, description = fst r, pubDate = pubDate_of E entry,
          link = snd r, author = auth\<rparr>)))))"

definition normalize_parsed :: "'d env \<Rightarrow> opts \<Rightarrow> jv \<Rightarrow> jv \<Rightarrow> jv \<Rightarrow> jv \<Rightarrow> error + 'd feed_item" where
  "normalize_parsed E opt uid auth entry parsed =
     rbind (select_data parsed) (\<lambda>d.
     rbind (parse_origin E parsed) (\<lambda>origin.
     item_of E opt uid auth entry d origin))"

definition normalize :: "'d env \<Rightarrow> opts \<Rightarrow> jv \<Rightarrow> jv \<Rightarrow> jv \<Rightarrow> error + 'd feed_item" where
  "normalize E opt uid auth entry =
     rbind (get entry (u ''card'')) (\<lambda>card.
     rbind (JSONbig_parse E card) (\<lambda>parsed.
     normalize_parsed E opt uid auth entry parsed))"

subsection \<open>The batch (lines 131 to 137, 177 to 289)\<close>

text \<open>
  Line 134: \<^verbatim>\<open>usernameAndFace[0] ?? cards[0]?.desc?.user_profile?.info.uname\<close>, and
  line 135, the same for the avatar with \<^verbatim>\<open>info?.face\<close>. The handler is modelled
  from \<^verbatim>\<open>cards\<close> on: the cookie, the request and the cache lookup that come before
  are its arguments, and the two cache writes of lines 136 and 137, which nothing
  in the handler reads back, are left out.
\<close>

definition first_profile :: "jv \<Rightarrow> jv" where
  "first_profile cards = getq (getq (idx cards 0) (u ''desc'')) (u ''user_profile'')"

definition resolve_author :: "jv \<Rightarrow> jv \<Rightarrow> error + jv" where
  "resolve_author cached cards =
     (if \<not> nullish cached then Inr cached
      else if nullish cards then Inl TypeError
      else if nullish (first_profile cards) then Inr JUndef
      else get (field (first_profile cards) (u ''info'')) (u ''uname''))"

definition resolve_face :: "jv \<Rightarrow> jv \<Rightarrow> error + jv" where
  "resolve_face cached cards =
     (if \<not> nullish cached then Inr cached
      else if nullish cards then Inl TypeError
      else Inr (getq (getq (first_profile cards) (u ''info'')) (u ''face'')))"




section \<open>The words of the specification, for comparison\<close>

text \<open>
  The specification describes both extractors as "first-match-wins over a fixed
  priority list of field names", returning "the first present value". These two
  definitions follow those words: a field is present when the payload has it,
  whatever it holds (\<open>text_of\<close> is the text of a value that has one).
\<close>

definition present :: "jv \<Rightarrow> bool" where
  "present v = (v \<noteq> JUndef)"

fun first_present :: "jv list \<Rightarrow> jv" where
  "first_present [] = JStr []"
| "first_present (x # xs) = (if present x then x else first_present xs)"

definition spec_title :: "jv \<Rightarrow> jv" where
  "spec_title d =
     first_present [getq d (u ''title''), getq d (u ''description''), getq d (u ''content''),
                    getq (getq d (u ''vest'')) (u ''content'')]"

definition text_of :: "jv \<Rightarrow> ustr" where
  "text_of v = (case to_string v of Inr s \<Rightarrow> s | Inl e \<Rightarrow> [])"

definition spec_vest_slot :: "jv \<Rightarrow> jv" where
  "spec_vest_slot d =
     (if present (getq (getq d (u ''vest'')) (u ''content''))
      then JStr (text_of (getq (getq d (u ''vest'')) (u ''content''))
                 @ (if present (getq d (u ''sketch''))
                    then u ''<br>'' @ text_of (getq (getq d (u ''sketch'')) (u ''title''))
                         @ u ''<br>'' @ text_of (getq (getq d (u ''sketch'')) (u ''desc_text''))
                    else []))
      else JUndef)"

definition spec_description :: "jv \<Rightarrow> jv" where
  "spec_description d =
     first_present [getq d (u ''dynamic''), getq d (u ''desc''), getq d (u ''description''),
                    getq d (u ''content''), getq d (u ''summary''), spec_vest_slot d,
                    getq d (u ''intro'')]"

section \<open>Vocabulary of the statements\<close>

text \<open>
  The five plain text slots that \<^verbatim>\<open>getDes\<close> tries before the vest wrapper, all falsy.
\<close>

definition plain_slots_falsy :: "jv \<Rightarrow> bool" where
  "plain_slots_falsy d =
     (\<not> truthy (field d (u ''dynamic'')) \<and> \<not> truthy (field d (u ''desc''))
      \<and> \<not> truthy (field d (u ''description'')) \<and> \<not> truthy (field d (u ''content''))
      \<and> \<not> truthy (field d (u ''summary'')))"

text \<open>
  The six signals \<^verbatim>\<open>getUrl\<close> tests, in its order; \<open>first_signal d\<close>: the first of
  them, in that order, that the payload shows; \<open>only_signal d k\<close>: the payload shows
  the signal \<open>k\<close> and no other; \<open>no_signal d\<close>: it shows none.
\<close>

definition dispatch_signals :: "ustr list" where
  "dispatch_signals =
     [u ''aid'', u ''image_urls'', u ''upper'', u ''roomid'', u ''sketch'', u ''url'']"

definition first_signal :: "jv \<Rightarrow> ustr option" where
  "first_signal d = find (\<lambda>k. truthy (field d k)) dispatch_signals"

definition only_signal :: "jv \<Rightarrow> ustr \<Rightarrow> bool" where
  "only_signal d k =
     (map (\<lambda>k'. truthy (field d k')) dispatch_signals = map (\<lambda>k'. k' = k) dispatch_signals)"

definition no_signal :: "jv \<Rightarrow> bool" where
  "no_signal d =
     (map (\<lambda>k'. truthy (field d k')) dispatch_signals = map (\<lambda>k'. False) dispatch_signals)"

section \<open>Sample payloads\<close>

text \<open>The route parameters at their defaults (lines 113 to 117).\<close>

definition no_opts :: opts where
  "no_opts = \<lparr>showEmoji = False, disableEmbed = False, displayArticle = False,
              useAvid = False, directLink = False\<rparr>"

text \<open>An entry of which only the \<^verbatim>\<open>desc.bvid\<close> is given.\<close>

definition bvid_entry :: jv where
  "bvid_entry = JObj [(u ''desc'', JObj [(u ''bvid'', JStr (u ''BV1xx''))])]"

text \<open>
  A video post as the API sends it when the uploader added no comment: the
  \<^verbatim>\<open>dynamic\<close> slot is there and empty, the text is in \<^verbatim>\<open>desc\<close>.
\<close>

definition video_payload :: jv where
  "video_payload =
     JObj [(u ''aid'', JNum 170001), (u ''title'', JStr (u ''T'')),
           (u ''dynamic'', JStr []), (u ''desc'', JStr (u ''D''))]"

text \<open>The same post with a comment of the uploader.\<close>

definition commented_video_payload :: jv where
  "commented_video_payload =
     JObj [(u ''aid'', JNum 170001), (u ''title'', JStr (u ''T'')),
           (u ''dynamic'', JStr (u ''hi'')), (u ''desc'', JStr (u ''D''))]"

text \<open>The \<^verbatim>\<open>item\<close> of a picture post: an empty \<^verbatim>\<open>title\<close>, the text in \<^verbatim>\<open>description\<close>.\<close>

definition picture_payload :: jv where
  "picture_payload =
     JObj [(u ''title'', JStr []), (u ''description'', JStr (u ''D'')),
           (u ''pictures'', JArr [JObj [(u ''img_src'', JStr (u ''p.png''))]])]"

definition titled_payload :: jv where
  "titled_payload = JObj [(u ''title'', JStr (u ''T'')), (u ''description'', JStr (u ''D''))]"

definition text_payload :: jv where
  "text_payload = JObj [(u ''content'', JStr (u ''C''))]"

definition campaign_payload :: jv where
  "campaign_payload =
     JObj [(u ''vest'', JObj [(u ''content'', JStr (u ''V''))]),
           (u ''sketch'', JObj [(u ''title'', JStr (u ''S'')), (u ''desc_text'', JStr (u ''X'')),
                               (u ''target_url'', JStr (u ''https://b.cn/act''))])]"

definition vest_only_payload :: jv where
  "vest_only_payload = JObj [(u ''vest'', JObj [(u ''content'', JStr (u ''V''))])]"

definition intro_payload :: jv where
  "intro_payload = JObj [(u ''intro'', JStr (u ''I''))]"

definition article_payload :: jv where
  "article_payload =
     JObj [(u ''id'', JNum 7), (u ''title'', JStr (u ''A'')), (u ''summary'', JStr (u ''S'')),
           (u ''image_urls'', JArr [JStr (u ''c.png'')])]"

definition audio_payload :: jv where
  "audio_payload = JObj [(u ''id'', JNum 9), (u ''upper'', JStr (u ''up'')), (u ''title'', JStr (u ''A''))]"

definition live_payload :: jv where
  "live_payload = JObj [(u ''roomid'', JNum 5), (u ''uname'', JStr (u ''bob'')), (u ''title'', JStr (u ''L''))]"

definition episode_payload :: jv where
  "episode_payload =
     JObj [(u ''url'', JStr (u ''https://b.cn/ep1'')), (u ''index_title'', JStr (u ''E'')),
           (u ''apiSeasonInfo'', JObj [(u ''title'', JStr (u ''N''))])]"

text \<open>
  Payloads that show more than one dispatch signal, written in another order
  than the dispatch tests them: an audio post that also has a room id and a url,
  and a video post that also has a sketch.
\<close>

definition audio_live_payload :: jv where
  "audio_live_payload =
     JObj [(u ''url'', JStr (u ''https://b.cn/x'')), (u ''roomid'', JNum 5),
           (u ''upper'', JStr (u ''up'')), (u ''id'', JNum 9)]"

definition video_campaign_payload :: jv where
  "video_campaign_payload =
     JObj [(u ''sketch'', JObj [(u ''target_url'', JStr (u ''https://b.cn/act''))]),
           (u ''aid'', JNum 170001)]"

text \<open>Payloads in which a field that is converted to a string holds an object.\<close>

definition broken_live_payload :: jv where
  "broken_live_payload = JObj [(u ''roomid'', JObj [])]"

definition broken_campaign_payload :: jv where
  "broken_campaign_payload =
     JObj [(u ''vest'', JObj [(u ''content'', JStr (u ''V''))]),
           (u ''sketch'', JObj [(u ''title'', JObj []), (u ''desc_text'', JStr (u ''X''))])]"

section \<open>Sample feed entries\<close>

text \<open>
  A stand-in for \<^verbatim>\<open>JSONbig.parse\<close> on the texts listed in a table (the argument is
  converted to a string first, as the library does), a
  \<^verbatim>\<open>getArticleDataFromCvid\<close> whose promise rejects, a \<^verbatim>\<open>utils.iframe\<close> that is a
  template literal around the video id, and an environment made of them.
  \<open>json_string\<close> writes a text as a JSON string literal, for a card that carries
  its origin as a nested serialized payload.
\<close>

definition json_string :: "ustr \<Rightarrow> ustr" where
  "json_string s = [34] @ concat (map (\<lambda>c. if c = 34 \<or> c = 92 then [92, c] else [c]) s) @ [34]"

definition parse_table :: "(ustr \<times> (error + jv)) list \<Rightarrow> jv \<Rightarrow> error + jv" where
  "parse_table tbl v =
     rbind (to_string v) (\<lambda>s.
     case map_of tbl s of Some r \<Rightarrow> r | None \<Rightarrow> Inl NotModelled)"

definition rejecting :: "jv \<Rightarrow> jv \<Rightarrow> error + jv" where
  "rejecting cvid uid = Inl Rejected"

definition sample_env :: "(ustr \<times> (error + jv)) list \<Rightarrow> jv env" where
  "sample_env tbl =
     \<lparr>JSONbig_parse = parse_table tbl,
      getArticleDataFromCvid = rejecting,
      utils_iframe = (\<lambda>aid. template [Lit (u ''<iframe aid=''), Val aid, Lit (u ''></iframe>'')]),
      parseDate = (\<lambda>timestamp. timestamp)\<rparr>"

definition sample_uid :: jv where
  "sample_uid = JStr (u ''2267573'')"

definition sample_author :: jv where
  "sample_author = JStr (u ''up'')"

definition sample_desc :: jv where
  "sample_desc = JObj [(u ''dynamic_id'', JNum 123), (u ''timestamp'', JStr (u ''1600000000''))]"

text \<open>
  The entry of the specification's round trip, \<^verbatim>\<open>{card: '{"item":{"title":"T",
  "description":"D"}}', desc: {dynamic_id: 123, timestamp: "1600000000"}}\<close>, as it is
  written there (\<open>entry_no_display\<close>) and with an empty \<^verbatim>\<open>display\<close> record added
  (\<open>entry_TD\<close>).
\<close>

definition card_TD :: ustr where
  \<open>card_TD = u ''{"item":{"title":"T","description":"D"}}''\<close>

definition parsed_TD :: jv where
  "parsed_TD = JObj [(u ''item'', titled_payload)]"

definition entry_no_display :: jv where
  "entry_no_display = JObj [(u ''card'', JStr card_TD), (u ''desc'', sample_desc)]"

definition entry_TD :: jv where
  "entry_TD =
     JObj [(u ''card'', JStr card_TD), (u ''desc'', sample_desc), (u ''display'', JObj [])]"

text \<open>A batch whose first entry has a user profile without \<^verbatim>\<open>info\<close>.\<close>

definition cards_no_info :: jv where
  "cards_no_info =
     JArr [JObj [(u ''card'', JStr card_TD),
                 (u ''desc'', JObj [(u ''user_profile'', JObj [])]),
                 (u ''display'', JObj [])]]"

text \<open>An article entry.\<close>

definition card_article :: ustr where
  \<open>card_article = u ''{"id":7,"title":"A","summary":"S","image_urls":["c.png"]}''\<close>

definition entry_article :: jv where
  "entry_article = JObj [(u ''card'', JStr card_article), (u ''display'', JObj [])]"

text \<open>A repost whose nested origin text is cut short, so that it does not parse.\<close>

definition origin_broken :: ustr where
  \<open>origin_broken = u ''{"item":''\<close>

definition card_bad_origin :: ustr where
  \<open>card_bad_origin =
     u ''{"item":{"content":"hi"},"origin":'' @ json_string origin_broken @ u ''}''\<close>

definition parsed_bad_origin :: jv where
  "parsed_bad_origin =
     JObj [(u ''item'', JObj [(u ''content'', JStr (u ''hi''))]),
           (u ''origin'', JStr origin_broken)]"

definition entry_bad_origin :: jv where
  "entry_bad_origin = JObj [(u ''card'', JStr card_bad_origin), (u ''display'', JObj [])]"

text \<open>A text post with an emoji token, and the emoji table of its entry.\<close>

definition card_doge :: ustr where
  \<open>card_doge = u ''{"item":{"content":"[doge] ??d?"}}''\<close>

definition parsed_doge :: jv where
  "parsed_doge = JObj [(u ''item'', JObj [(u ''content'', JStr (u ''[doge] ??d?''))])]"

definition doge_url :: jv where
  "doge_url = JStr (u ''https://i0.hdslb.com/doge.png'')"

definition entry_doge :: jv where
  "entry_doge =
     JObj [(u ''card'', JStr card_doge),
           (u ''display'',
            JObj [(u ''emoji_info'',
                   JObj [(u ''emoji_details'',
                          JArr [JObj [(u ''text'', JStr (u ''[doge]'')),
                                      (u ''url'', doge_url)]])])])]"

text \<open>A short-video post.\<close>

definition card_clip :: ustr where
  \<open>card_clip =
     u ''{"item":{"description":"clip","video_playurl":"http://v.cn/a.mp4","width":480,"height":360}}''\<close>

definition parsed_clip :: jv where
  "parsed_clip =
     JObj [(u ''item'',
            JObj [(u ''description'', JStr (u ''clip'')),
                  (u ''video_playurl'', JStr (u ''http://v.cn/a.mp4'')),
                  (u ''width'', JNum 480), (u ''height'', JNum 360)])]"

definition entry_clip :: jv where
  "entry_clip = JObj [(u ''card'', JStr card_clip), (u ''display'', JObj [])]"

text \<open>
  A text post, not a repost, whose author typed the words of the repost marker.
\<close>

definition card_quote :: ustr where
  \<open>card_quote = u ''{"item":{"content":"'' @ zh_forwarded @ u ''@bob"}}''\<close>

definition parsed_quote :: jv where
  "parsed_quote = JObj [(u ''item'', JObj [(u ''content'', JStr (zh_forwarded @ u ''@bob''))])]"

definition entry_quote :: jv where
  "entry_quote = JObj [(u ''card'', JStr card_quote), (u ''display'', JObj [])]"

text \<open>Reposts of a live room and of an episode, and an article payload with an origin.\<close>

definition origin_live :: ustr where
  \<open>origin_live = u ''{"roomid":5,"uname":"bob","title":"L"}''\<close>

definition origin_episode :: ustr where
  \<open>origin_episode =
     u ''{"url":"https://b.cn/ep1","index_title":"E","apiSeasonInfo":{"title":"N"}}''\<close>

definition card_repost_live :: ustr where
  \<open>card_repost_live =
     u ''{"item":{"content":"look"},"origin":'' @ json_string origin_live @ u ''}''\<close>

definition parsed_repost_live :: jv where
  "parsed_repost_live =
     JObj [(u ''item'', JObj [(u ''content'', JStr (u ''look''))]),
           (u ''origin'', JStr origin_live)]"

definition entry_repost_live :: jv where
  "entry_repost_live =
     JObj [(u ''card'', JStr card_repost_live), (u ''desc'', sample_desc),
           (u ''display'', JObj [])]"

definition card_repost_episode :: ustr where
  \<open>card_repost_episode =
     u ''{"item":{"content":"look"},"origin":'' @ json_string origin_episode @ u ''}''\<close>

definition parsed_repost_episode :: jv where
  "parsed_repost_episode =
     JObj [(u ''item'', JObj [(u ''content'', JStr (u ''look''))]),
           (u ''origin'', JStr origin_episode)]"

definition entry_repost_episode :: jv where
  "entry_repost_episode =
     JObj [(u ''card'', JStr card_repost_episode), (u ''desc'', sample_desc),
           (u ''display'', JObj [])]"

definition card_article_repost :: ustr where
  \<open>card_article_repost =
     u ''{"article":1,"id":7,"image_urls":["c.png"],"summary":"S","origin":''
     @ json_string origin_live @ u ''}''\<close>

definition parsed_article_repost :: jv where
  "parsed_article_repost =
     JObj [(u ''article'', JNum 1), (u ''id'', JNum 7),
           (u ''image_urls'', JArr [JStr (u ''c.png'')]), (u ''summary'', JStr (u ''S'')),
           (u ''origin'', JStr origin_live)]"

definition entry_article_repost :: jv where
  "entry_article_repost =
     JObj [(u ''card'', JStr card_article_repost), (u ''desc'', sample_desc),
           (u ''display'', JObj [])]"

text \<open>
  A payload whose nested \<^verbatim>\<open>item\<close> has pictures and an empty title, and a text of
  its own at the top level.
\<close>

definition untitled_item :: jv where
  "untitled_item =
     JObj [(u ''title'', JStr []),
           (u ''pictures'', JArr [JObj [(u ''img_src'', JStr (u ''p.png''))]])]"

definition card_untitled :: ustr where
  \<open>card_untitled =
     u ''{"item":{"title":"","pictures":[{"img_src":"p.png"}]},"dynamic":"top"}''\<close>

definition parsed_untitled :: jv where
  "parsed_untitled = JObj [(u ''item'', untitled_item), (u ''dynamic'', JStr (u ''top''))]"

definition entry_untitled :: jv where
  "entry_untitled = JObj [(u ''card'', JStr card_untitled), (u ''display'', JObj [])]"

definition sample_table :: "(ustr \<times> (error + jv)) list" where
  "sample_table =
     [(card_TD, Inr parsed_TD),
      (card_article, Inr article_payload),
      (card_bad_origin, Inr parsed_bad_origin),
      (origin_broken, Inl SyntaxError),
      (card_doge, Inr parsed_doge),
      (card_clip, Inr parsed_clip),
      (card_quote, Inr parsed_quote),
      (card_repost_live, Inr parsed_repost_live),
      (card_repost_episode, Inr parsed_repost_episode),
      (card_article_repost, Inr parsed_article_repost),
      (origin_live, Inr live_payload),
      (origin_episode, Inr episode_payload),
      (card_untitled, Inr parsed_untitled)]"

section \<open>Basic facts\<close>

lemma rbind_Inr [simp]: "rbind (Inr x) f = f x"
  by (simp add: rbind_def)

lemma rbind_Inl [simp]: "rbind (Inl e) f = Inl e"
  by (simp add: rbind_def)

lemma rbind_Inr_iff: "rbind m f = Inr y \<longleftrightarrow> (\<exists>x. m = Inr x \<and> f x = Inr y)"
  by (cases m) (auto simp: rbind_def)


text \<open>Only an object has a truthy field (other than \<^verbatim>\<open>length\<close>), and an object is truthy.\<close>

lemma truthy_field_obj: "truthy (field d k) \<Longrightarrow> k \<noteq> u ''length'' \<Longrightarrow> truthy d"
  by (cases d) auto

lemma js_add_undef: "js_add JUndef JUndef = Inr JNaN"
  by (simp add: js_add_def)

lemma js_add_strs: "js_add (JStr a) (JStr b) = Inr (JStr (a @ b))"
  by (simp add: js_add_def)

text \<open>A value that occurs twice in a template literal is converted twice, to the same text.\<close>

lemma template_twice:
  "template [Lit a, Val v, Lit b, Val v, Lit c]
     = rbind (to_string v) (\<lambda>t. Inr (a @ t @ b @ t @ c))"
  by (cases "to_string v") simp_all

lemma url_of_text: "url_of base v = rbind (to_string v) (\<lambda>t. Inr (JStr (base @ t)))"
  by (cases "to_string v") (simp_all add: url_of_def)

lemmas payload_defs = video_payload_def commented_video_payload_def picture_payload_def titled_payload_def text_payload_def
  campaign_payload_def vest_only_payload_def intro_payload_def article_payload_def
  audio_payload_def live_payload_def episode_payload_def audio_live_payload_def
  video_campaign_payload_def broken_live_payload_def broken_campaign_payload_def

section \<open>Title extraction\<close>

text \<open>
  Claim C8, as the code has it. \<^verbatim>\<open>getTitle\<close> follows the priority
  title, description, content, vest.content, and takes the first of them that is
  truthy (for a string: not empty), not the first that is set: a payload with a
  non-empty \<^verbatim>\<open>title\<close> yields that title whatever its \<^verbatim>\<open>description\<close> is, each later
  slot is returned when the earlier ones are falsy, and a payload with none of the
  four fields yields the empty string.
\<close>

theorem getTitle_first_truthy:
  "(truthy (field d (u ''title'')) \<longrightarrow> getTitle d = field d (u ''title''))
 \<and> (\<not> truthy (field d (u ''title'')) \<and> truthy (field d (u ''description''))
      \<longrightarrow> getTitle d = field d (u ''description''))
 \<and> (\<not> truthy (field d (u ''title'')) \<and> \<not> truthy (field d (u ''description''))
      \<and> truthy (field d (u ''content'')) \<longrightarrow> getTitle d = field d (u ''content''))
 \<and> (\<not> truthy (field d (u ''title'')) \<and> \<not> truthy (field d (u ''description''))
      \<and> \<not> truthy (field d (u ''content''))
      \<and> truthy (field (field d (u ''vest'')) (u ''content''))
      \<longrightarrow> getTitle d = field (field d (u ''vest'')) (u ''content''))
 \<and> (field d (u ''title'') = JUndef \<and> field d (u ''description'') = JUndef
      \<and> field d (u ''content'') = JUndef \<and> field d (u ''vest'') = JUndef
      \<longrightarrow> getTitle d = JStr [])"
proof -
  have k: "u ''title'' \<noteq> u ''length''" "u ''description'' \<noteq> u ''length''"
    "u ''content'' \<noteq> u ''length''" "u ''vest'' \<noteq> u ''length''"
    by simp_all
  show ?thesis
    using k by (auto simp: getTitle_def dest: truthy_field_obj)
qed

text \<open>
  The theorem at five payloads, one for each of its cases: a titled post, a
  picture post (empty title), a text post, a campaign post, and a live room
  payload read for a field it does not have.
\<close>

theorem getTitle_first_truthy_witness:
  "getTitle titled_payload = JStr (u ''T'')
 \<and> getTitle picture_payload = JStr (u ''D'')
 \<and> getTitle text_payload = JStr (u ''C'')
 \<and> getTitle campaign_payload = JStr (u ''V'')
 \<and> getTitle intro_payload = JStr []"
  using getTitle_first_truthy [of titled_payload] getTitle_first_truthy [of picture_payload]
    getTitle_first_truthy [of text_payload] getTitle_first_truthy [of campaign_payload]
    getTitle_first_truthy [of intro_payload]
  by (simp add: payload_defs)

text \<open>
  Claim C8 as the specification words it fails on a picture post: \<^verbatim>\<open>title\<close> and
  \<^verbatim>\<open>description\<close> are both set, the first present field is \<^verbatim>\<open>title\<close> (the empty
  string), and \<^verbatim>\<open>getTitle\<close> returns the description.
\<close>

theorem getTitle_title_set_counterexample:
  "present (field picture_payload (u ''title''))
 \<and> present (field picture_payload (u ''description''))
 \<and> spec_title picture_payload = field picture_payload (u ''title'')
 \<and> getTitle picture_payload = field picture_payload (u ''description'')
 \<and> getTitle picture_payload \<noteq> field picture_payload (u ''title'')"
  by (simp add: picture_payload_def present_def spec_title_def getq_def nullish_def getTitle_def)

section \<open>Description extraction\<close>

text \<open>
  Claim C5, as the code has it. For a payload that is not null, \<^verbatim>\<open>getDes\<close>
  returns the first truthy (non-empty) field in the order dynamic, desc,
  description, content, summary. When none of the five is truthy and the payload
  has a vest wrapper with a string content and a sketch whose title and text
  convert to strings (neither is an object), it returns that content followed by
  \<^verbatim>\<open><br>{sketch.title}<br>{sketch.desc_text}\<close>. When none of the five is truthy and
  the payload has neither vest nor sketch, it returns \<^verbatim>\<open>intro\<close> if that is truthy and
  the empty string otherwise.
\<close>

theorem getDes_first_truthy:
  assumes "\<not> nullish d"
  shows "(truthy (field d (u ''dynamic'')) \<longrightarrow> getDes d = Inr (field d (u ''dynamic'')))
 \<and> (\<not> truthy (field d (u ''dynamic'')) \<and> truthy (field d (u ''desc''))
      \<longrightarrow> getDes d = Inr (field d (u ''desc'')))
 \<and> (\<not> truthy (field d (u ''dynamic'')) \<and> \<not> truthy (field d (u ''desc''))
      \<and> truthy (field d (u ''description''))
      \<longrightarrow> getDes d = Inr (field d (u ''description'')))
 \<and> (\<not> truthy (field d (u ''dynamic'')) \<and> \<not> truthy (field d (u ''desc''))
      \<and> \<not> truthy (field d (u ''description'')) \<and> truthy (field d (u ''content''))
      \<longrightarrow> getDes d = Inr (field d (u ''content'')))
 \<and> (\<not> truthy (field d (u ''dynamic'')) \<and> \<not> truthy (field d (u ''desc''))
      \<and> \<not> truthy (field d (u ''description'')) \<and> \<not> truthy (field d (u ''content''))
      \<and> truthy (field d (u ''summary''))
      \<longrightarrow> getDes d = Inr (field d (u ''summary'')))
 \<and> (plain_slots_falsy d \<and> field (field d (u ''vest'')) (u ''content'') = JStr s
      \<and> truthy (field d (u ''sketch''))
      \<and> to_string (field (field d (u ''sketch'')) (u ''title'')) = Inr t
      \<and> to_string (field (field d (u ''sketch'')) (u ''desc_text'')) = Inr x
      \<longrightarrow> getDes d = Inr (JStr (s @ u ''<br>'' @ t @ u ''<br>'' @ x)))
 \<and> (plain_slots_falsy d \<and> field d (u ''vest'') = JUndef \<and> field d (u ''sketch'') = JUndef
      \<longrightarrow> getDes d = Inr (if truthy (field d (u ''intro'')) then field d (u ''intro'')
                           else JStr []))"
proof -
  have vest: "truthy (field d (u ''vest''))"
    if "field (field d (u ''vest'')) (u ''content'') = JStr s"
    using that by (cases "field d (u ''vest'')") (auto split: if_splits)
  show ?thesis
    using assms vest
    by (auto simp: getDes_def or_else_def plain_slots_falsy_def vest_content_def
        sketch_suffix_def js_add_undef js_add_strs)
qed

text \<open>
  The theorem at a titled picture item, a video post with a comment and one
  with an empty \<^verbatim>\<open>dynamic\<close>, a text post, an article, a campaign page, and payloads
  with only \<^verbatim>\<open>intro\<close> and with no text field at all.
\<close>

theorem getDes_first_truthy_witness:
  "getDes titled_payload = Inr (JStr (u ''D''))
 \<and> getDes commented_video_payload = Inr (JStr (u ''hi''))
 \<and> getDes video_payload = Inr (JStr (u ''D''))
 \<and> getDes text_payload = Inr (JStr (u ''C''))
 \<and> getDes article_payload = Inr (JStr (u ''S''))
 \<and> getDes campaign_payload = Inr (JStr (u ''V<br>S<br>X''))
 \<and> getDes intro_payload = Inr (JStr (u ''I''))
 \<and> getDes live_payload = Inr (JStr [])"
  using getDes_first_truthy [of titled_payload] getDes_first_truthy [of commented_video_payload]
    getDes_first_truthy [of video_payload]
    getDes_first_truthy [of text_payload] getDes_first_truthy [of article_payload]
    getDes_first_truthy [of campaign_payload "u ''V''" "u ''S''" "u ''X''"]
    getDes_first_truthy [of intro_payload] getDes_first_truthy [of live_payload]
  by (simp add: payload_defs nullish_def plain_slots_falsy_def)

text \<open>
  Claim C5 as the specification words it fails on a video post without a
  comment: the first present field is \<^verbatim>\<open>dynamic\<close> (the empty string), and
  \<^verbatim>\<open>getDes\<close> returns \<^verbatim>\<open>desc\<close>.
\<close>

theorem getDes_first_present_counterexample:
  "present (field video_payload (u ''dynamic''))
 \<and> spec_description video_payload = field video_payload (u ''dynamic'')
 \<and> getDes video_payload = Inr (field video_payload (u ''desc''))
 \<and> field video_payload (u ''desc'') \<noteq> field video_payload (u ''dynamic'')"
  by (simp add: video_payload_def present_def spec_description_def getq_def nullish_def
      getDes_def or_else_def)

text \<open>
  Outside the claim as amended: a vest wrapper without a sketch, where the suffix
  operand is \<^verbatim>\<open>undefined\<close> and \<^verbatim>\<open>+\<close> appends its name to the text; and a sketch
  whose title is an object, which the template literal cannot convert.
\<close>

lemma getDes_vest_without_sketch:
  "getDes vest_only_payload = Inr (JStr (u ''Vundefined''))"
  by (simp add: vest_only_payload_def getDes_def or_else_def nullish_def vest_content_def
      sketch_suffix_def js_add_def)

lemma getDes_sketch_title_object:
  "getDes broken_campaign_payload = Inl TypeError"
  by (simp add: broken_campaign_payload_def getDes_def or_else_def nullish_def vest_content_def
      sketch_suffix_def js_add_def)

section \<open>Link resolution\<close>

lemma first_signal_iff:
  "first_signal d = Some (u ''aid'') \<longleftrightarrow> truthy (field d (u ''aid''))"
  "first_signal d = Some (u ''image_urls'') \<longleftrightarrow>
     \<not> truthy (field d (u ''aid'')) \<and> truthy (field d (u ''image_urls''))"
  "first_signal d = Some (u ''upper'') \<longleftrightarrow>
     \<not> truthy (field d (u ''aid'')) \<and> \<not> truthy (field d (u ''image_urls''))
     \<and> truthy (field d (u ''upper''))"
  "first_signal d = Some (u ''roomid'') \<longleftrightarrow>
     \<not> truthy (field d (u ''aid'')) \<and> \<not> truthy (field d (u ''image_urls''))
     \<and> \<not> truthy (field d (u ''upper'')) \<and> truthy (field d (u ''roomid''))"
  "first_signal d = Some (u ''sketch'') \<longleftrightarrow>
     \<not> truthy (field d (u ''aid'')) \<and> \<not> truthy (field d (u ''image_urls''))
     \<and> \<not> truthy (field d (u ''upper'')) \<and> \<not> truthy (field d (u ''roomid''))
     \<and> truthy (field d (u ''sketch''))"
  "first_signal d = Some (u ''url'') \<longleftrightarrow>
     \<not> truthy (field d (u ''aid'')) \<and> \<not> truthy (field d (u ''image_urls''))
     \<and> \<not> truthy (field d (u ''upper'')) \<and> \<not> truthy (field d (u ''roomid''))
     \<and> \<not> truthy (field d (u ''sketch'')) \<and> truthy (field d (u ''url''))"
  "first_signal d = None \<longleftrightarrow>
     \<not> truthy (field d (u ''aid'')) \<and> \<not> truthy (field d (u ''image_urls''))
     \<and> \<not> truthy (field d (u ''upper'')) \<and> \<not> truthy (field d (u ''roomid''))
     \<and> \<not> truthy (field d (u ''sketch'')) \<and> \<not> truthy (field d (u ''url''))"
  by (simp_all add: first_signal_def dispatch_signals_def)

lemma resolve_url_first_match:
  "(first_signal d = Some (u ''aid'') \<longrightarrow> resolve_url opt entry d =
       rbind (video_id opt entry d) (\<lambda>id.
       rbind (url_of (u ''https://www.bilibili.com/video/'') id) (\<lambda>url.
       Inr (Some (label_video, url)))))
 \<and> (first_signal d = Some (u ''image_urls'') \<longrightarrow> resolve_url opt entry d =
       rbind (url_of (u ''https://www.bilibili.com/read/cv'') (field d (u ''id''))) (\<lambda>url.
       Inr (Some (label_article, url))))
 \<and> (first_signal d = Some (u ''upper'') \<longrightarrow> resolve_url opt entry d =
       rbind (url_of (u ''https://www.bilibili.com/audio/au'') (field d (u ''id''))) (\<lambda>url.
       Inr (Some (label_audio, url))))
 \<and> (first_signal d = Some (u ''roomid'') \<longrightarrow> resolve_url opt entry d =
       rbind (url_of (u ''https://live.bilibili.com/'') (field d (u ''roomid''))) (\<lambda>url.
       Inr (Some (label_live, url))))
 \<and> (first_signal d = Some (u ''sketch'') \<longrightarrow> resolve_url opt entry d =
       Inr (Some (label_campaign, field (field d (u ''sketch'')) (u ''target_url''))))
 \<and> (first_signal d = Some (u ''url'') \<longrightarrow> resolve_url opt entry d =
       Inr (Some (zh_address, field d (u ''url''))))
 \<and> (first_signal d = None \<longrightarrow> resolve_url opt entry d = Inr None)"
proof -
  have k: "u ''aid'' \<noteq> u ''length''" "u ''image_urls'' \<noteq> u ''length''"
    "u ''upper'' \<noteq> u ''length''" "u ''roomid'' \<noteq> u ''length''"
    "u ''sketch'' \<noteq> u ''length''" "u ''url'' \<noteq> u ''length''"
    by simp_all
  show ?thesis
    unfolding first_signal_iff
    using k by (auto simp: resolve_url_def dest: truthy_field_obj)
qed

lemma first_signal_only:
  "k \<in> set dispatch_signals \<Longrightarrow> only_signal d k \<Longrightarrow> first_signal d = Some k"
  by (auto simp: only_signal_def first_signal_def dispatch_signals_def)

lemma first_signal_none: "no_signal d \<longleftrightarrow> first_signal d = None"
  by (auto simp: no_signal_def first_signal_def dispatch_signals_def)

text \<open>
  Claim C7. Link resolution is first-match-wins in the fixed order video id,
  article cover array, audio uploader, live room id, campaign sketch, generic url:
  the first of these signals that a payload shows decides the branch, whatever
  the later signals and the other fields are. The branch gives the URL (the video
  page of the \<^verbatim>\<open>av\<close> id or of the entry's \<^verbatim>\<open>bvid\<close>, the article or audio page of
  \<^verbatim>\<open>id\<close>, the live room of \<^verbatim>\<open>roomid\<close>, the sketch's \<^verbatim>\<open>target_url\<close>, the \<^verbatim>\<open>url\<close>) and
  the line \<^verbatim>\<open><br>LABEL<a href=URL>URL</a>\<close> with the label of the branch, and under
  \<^verbatim>\<open>directLink\<close> the URL becomes the permalink; \<^verbatim>\<open>getUrl\<close> throws exactly when the
  value put into the URL does not convert to a string. In particular a payload
  that shows exactly one signal is served by that branch, and a payload that
  shows none gets the empty fragment, the permalink left as it was.
\<close>

theorem getUrl_first_match:
  "(first_signal d = Some (u ''aid'') \<and> useAvid opt \<longrightarrow> getUrl opt entry lnk d =
       rbind (to_string (field d (u ''aid''))) (\<lambda>t.
       Inr (u ''<br>'' @ [0x89C6, 0x9891, 0x5730, 0x5740, 0xFF1A]
            @ u ''<a href=https://www.bilibili.com/video/av'' @ t
            @ u ''>https://www.bilibili.com/video/av'' @ t @ u ''</a>'',
            if directLink opt then JStr (u ''https://www.bilibili.com/video/av'' @ t) else lnk)))
 \<and> (first_signal d = Some (u ''aid'') \<and> \<not> useAvid opt \<longrightarrow> getUrl opt entry lnk d =
       rbind (to_string (ors [getq (getq entry (u ''desc'')) (u ''bvid''),
                              getq (getq (getq entry (u ''desc'')) (u ''origin'')) (u ''bvid'')]))
         (\<lambda>t.
       Inr (u ''<br>'' @ [0x89C6, 0x9891, 0x5730, 0x5740, 0xFF1A]
            @ u ''<a href=https://www.bilibili.com/video/'' @ t
            @ u ''>https://www.bilibili.com/video/'' @ t @ u ''</a>'',
            if directLink opt then JStr (u ''https://www.bilibili.com/video/'' @ t) else lnk)))
 \<and> (first_signal d = Some (u ''image_urls'') \<longrightarrow> getUrl opt entry lnk d =
       rbind (to_string (field d (u ''id''))) (\<lambda>t.
       Inr (u ''<br>'' @ [0x4E13, 0x680F, 0x5730, 0x5740, 0xFF1A]
            @ u ''<a href=https://www.bilibili.com/read/cv'' @ t
            @ u ''>https://www.bilibili.com/read/cv'' @ t @ u ''</a>'',
            if directLink opt then JStr (u ''https://www.bilibili.com/read/cv'' @ t) else lnk)))
 \<and> (first_signal d = Some (u ''upper'') \<longrightarrow> getUrl opt entry lnk d =
       rbind (to_string (field d (u ''id''))) (\<lambda>t.
       Inr (u ''<br>'' @ [0x97F3, 0x9891, 0x5730, 0x5740, 0xFF1A]
            @ u ''<a href=https://www.bilibili.com/audio/au'' @ t
            @ u ''>https://www.bilibili.com/audio/au'' @ t @ u ''</a>'',
            if directLink opt then JStr (u ''https://www.bilibili.com/audio/au'' @ t) else lnk)))
 \<and> (first_signal d = Some (u ''roomid'') \<longrightarrow> getUrl opt entry lnk d =
       rbind (to_string (field d (u ''roomid''))) (\<lambda>t.
       Inr (u ''<br>'' @ [0x76F4, 0x64AD, 0x95F4, 0x5730, 0x5740, 0xFF1A]
            @ u ''<a href=https://live.bilibili.com/'' @ t
            @ u ''>https://live.bilibili.com/'' @ t @ u ''</a>'',
            if directLink opt then JStr (u ''https://live.bilibili.com/'' @ t) else lnk)))
 \<and> (first_signal d = Some (u ''sketch'') \<longrightarrow> getUrl opt entry lnk d =
       rbind (to_string (field (field d (u ''sketch'')) (u ''target_url''))) (\<lambda>t.
       Inr (u ''<br>'' @ [0x6D3B, 0x52A8, 0x5730, 0x5740, 0xFF1A]
            @ u ''<a href='' @ t @ u ''>'' @ t @ u ''</a>'',
            if directLink opt then field (field d (u ''sketch'')) (u ''target_url'') else lnk)))
 \<and> (first_signal d = Some (u ''url'') \<longrightarrow> getUrl opt entry lnk d =
       rbind (to_string (field d (u ''url''))) (\<lambda>t.
       Inr (u ''<br>'' @ [0x5730, 0x5740, 0xFF1A]
            @ u ''<a href='' @ t @ u ''>'' @ t @ u ''</a>'',
            if directLink opt then field d (u ''url'') else lnk)))
 \<and> (first_signal d = None \<longrightarrow> getUrl opt entry lnk d = Inr ([], lnk))
 \<and> (\<forall>k \<in> set dispatch_signals. only_signal d k \<longrightarrow> first_signal d = Some k)
 \<and> (no_signal d \<longrightarrow> first_signal d = None)"
proof -
  note r = resolve_url_first_match [of d opt entry]
  have av: "first_signal d = Some (u ''aid'') \<and> useAvid opt \<longrightarrow> getUrl opt entry lnk d =
         rbind (to_string (field d (u ''aid''))) (\<lambda>t.
         Inr (u ''<br>'' @ [0x89C6, 0x9891, 0x5730, 0x5740, 0xFF1A]
              @ u ''<a href=https://www.bilibili.com/video/av'' @ t
              @ u ''>https://www.bilibili.com/video/av'' @ t @ u ''</a>'',
              if directLink opt then JStr (u ''https://www.bilibili.com/video/av'' @ t) else lnk))"
    using r
    by (cases "to_string (field d (u ''aid''))")
      (simp_all add: getUrl_def video_id_def url_of_text anchor_def template_twice
        label_video_def zh_address_def)
  have bv: "first_signal d = Some (u ''aid'') \<and> \<not> useAvid opt \<longrightarrow> getUrl opt entry lnk d =
         rbind (to_string (ors [getq (getq entry (u ''desc'')) (u ''bvid''),
                                getq (getq (getq entry (u ''desc'')) (u ''origin'')) (u ''bvid'')]))
           (\<lambda>t.
         Inr (u ''<br>'' @ [0x89C6, 0x9891, 0x5730, 0x5740, 0xFF1A]
              @ u ''<a href=https://www.bilibili.com/video/'' @ t
              @ u ''>https://www.bilibili.com/video/'' @ t @ u ''</a>'',
              if directLink opt then JStr (u ''https://www.bilibili.com/video/'' @ t) else lnk))"
    using r
    by (cases "to_string (ors [getq (getq entry (u ''desc'')) (u ''bvid''),
                              getq (getq (getq entry (u ''desc'')) (u ''origin'')) (u ''bvid'')])")
      (simp_all add: getUrl_def video_id_def url_of_text anchor_def template_twice
        label_video_def zh_address_def)
  have ar: "first_signal d = Some (u ''image_urls'') \<longrightarrow> getUrl opt entry lnk d =
         rbind (to_string (field d (u ''id''))) (\<lambda>t.
         Inr (u ''<br>'' @ [0x4E13, 0x680F, 0x5730, 0x5740, 0xFF1A]
              @ u ''<a href=https://www.bilibili.com/read/cv'' @ t
              @ u ''>https://www.bilibili.com/read/cv'' @ t @ u ''</a>'',
              if directLink opt then JStr (u ''https://www.bilibili.com/read/cv'' @ t) else lnk))"
    using r
    by (cases "to_string (field d (u ''id''))")
      (simp_all add: getUrl_def video_id_def url_of_text anchor_def template_twice
        label_article_def zh_address_def)
  have au: "first_signal d = Some (u ''upper'') \<longrightarrow> getUrl opt entry lnk d =
         rbind (to_string (field d (u ''id''))) (\<lambda>t.
         Inr (u ''<br>'' @ [0x97F3, 0x9891, 0x5730, 0x5740, 0xFF1A]
              @ u ''<a href=https://www.bilibili.com/audio/au'' @ t
              @ u ''>https://www.bilibili.com/audio/au'' @ t @ u ''</a>'',
              if directLink opt then JStr (u ''https://www.bilibili.com/audio/au'' @ t) else lnk))"
    using r
    by (cases "to_string (field d (u ''id''))")
      (simp_all add: getUrl_def video_id_def url_of_text anchor_def template_twice
        label_audio_def zh_address_def)
  have li: "first_signal d = Some (u ''roomid'') \<longrightarrow> getUrl opt entry lnk d =
         rbind (to_string (field d (u ''roomid''))) (\<lambda>t.
         Inr (u ''<br>'' @ [0x76F4, 0x64AD, 0x95F4, 0x5730, 0x5740, 0xFF1A]
              @ u ''<a href=https://live.bilibili.com/'' @ t
              @ u ''>https://live.bilibili.com/'' @ t @ u ''</a>'',
              if directLink opt then JStr (u ''https://live.bilibili.com/'' @ t) else lnk))"
    using r
    by (cases "to_string (field d (u ''roomid''))")
      (simp_all add: getUrl_def video_id_def url_of_text anchor_def template_twice
        label_live_def zh_address_def)
  have sk: "first_signal d = Some (u ''sketch'') \<longrightarrow> getUrl opt entry lnk d =
         rbind (to_string (field (field d (u ''sketch'')) (u ''target_url''))) (\<lambda>t.
         Inr (u ''<br>'' @ [0x6D3B, 0x52A8, 0x5730, 0x5740, 0xFF1A]
              @ u ''<a href='' @ t @ u ''>'' @ t @ u ''</a>'',
              if directLink opt then field (field d (u ''sketch'')) (u ''target_url'') else lnk))"
    using r
    by (cases "to_string (field (field d (u ''sketch'')) (u ''target_url''))")
      (simp_all add: getUrl_def video_id_def url_of_text anchor_def template_twice
        label_campaign_def zh_address_def)
  have ur: "first_signal d = Some (u ''url'') \<longrightarrow> getUrl opt entry lnk d =
         rbind (to_string (field d (u ''url''))) (\<lambda>t.
         Inr (u ''<br>'' @ [0x5730, 0x5740, 0xFF1A]
              @ u ''<a href='' @ t @ u ''>'' @ t @ u ''</a>'',
              if directLink opt then field d (u ''url'') else lnk))"
    using r
    by (cases "to_string (field d (u ''url''))")
      (simp_all add: getUrl_def video_id_def url_of_text anchor_def template_twice
         zh_address_def)
  have no: "first_signal d = None \<longrightarrow> getUrl opt entry lnk d = Inr ([], lnk)"
    using r by (simp add: getUrl_def)
  have on: "\<forall>k \<in> set dispatch_signals. only_signal d k \<longrightarrow> first_signal d = Some k"
    using first_signal_only [of _ d] by blast
  have nn: "no_signal d \<longrightarrow> first_signal d = None"
    using first_signal_none [of d] by blast
  show ?thesis
    using av bv ar au li sk ur no on nn by (intro conjI)
qed

text \<open>
  The theorem at one payload for each branch (the video payload with and
  without \<^verbatim>\<open>useAvid\<close>), at a text post, which shows no signal, at two payloads that
  show several signals (the audio branch wins over the room id and the url, the
  video branch over the sketch, and \<^verbatim>\<open>directLink\<close> takes its URL), and at a room
  id that is an object. The live room payload shows exactly one signal.
\<close>

theorem getUrl_first_match_witness:
  "getUrl no_opts bvid_entry (JStr []) video_payload
     = Inr (u ''<br>'' @ [0x89C6, 0x9891, 0x5730, 0x5740, 0xFF1A]
            @ u ''<a href=https://www.bilibili.com/video/BV1xx>https://www.bilibili.com/video/BV1xx</a>'',
            JStr [])
 \<and> getUrl (no_opts\<lparr>useAvid := True\<rparr>) bvid_entry (JStr []) video_payload
     = Inr (u ''<br>'' @ [0x89C6, 0x9891, 0x5730, 0x5740, 0xFF1A]
            @ u ''<a href=https://www.bilibili.com/video/av170001>https://www.bilibili.com/video/av170001</a>'',
            JStr [])
 \<and> getUrl no_opts bvid_entry (JStr []) article_payload
     = Inr (u ''<br>'' @ [0x4E13, 0x680F, 0x5730, 0x5740, 0xFF1A]
            @ u ''<a href=https://www.bilibili.com/read/cv7>https://www.bilibili.com/read/cv7</a>'',
            JStr [])
 \<and> getUrl no_opts bvid_entry (JStr []) audio_payload
     = Inr (u ''<br>'' @ [0x97F3, 0x9891, 0x5730, 0x5740, 0xFF1A]
            @ u ''<a href=https://www.bilibili.com/audio/au9>https://www.bilibili.com/audio/au9</a>'',
            JStr [])
 \<and> getUrl no_opts bvid_entry (JStr []) live_payload
     = Inr (u ''<br>'' @ [0x76F4, 0x64AD, 0x95F4, 0x5730, 0x5740, 0xFF1A]
            @ u ''<a href=https://live.bilibili.com/5>https://live.bilibili.com/5</a>'',
            JStr [])
 \<and> getUrl no_opts bvid_entry (JStr []) campaign_payload
     = Inr (u ''<br>'' @ [0x6D3B, 0x52A8, 0x5730, 0x5740, 0xFF1A]
            @ u ''<a href=https://b.cn/act>https://b.cn/act</a>'',
            JStr [])
 \<and> getUrl no_opts bvid_entry (JStr []) episode_payload
     = Inr (u ''<br>'' @ [0x5730, 0x5740, 0xFF1A]
            @ u ''<a href=https://b.cn/ep1>https://b.cn/ep1</a>'',
            JStr [])
 \<and> getUrl no_opts bvid_entry (JStr []) text_payload = Inr ([], JStr [])
 \<and> getUrl (no_opts\<lparr>directLink := True\<rparr>) bvid_entry (JStr []) audio_live_payload
     = Inr (u ''<br>'' @ [0x97F3, 0x9891, 0x5730, 0x5740, 0xFF1A]
            @ u ''<a href=https://www.bilibili.com/audio/au9>https://www.bilibili.com/audio/au9</a>'',
            JStr (u ''https://www.bilibili.com/audio/au9''))
 \<and> getUrl (no_opts\<lparr>directLink := True\<rparr>) bvid_entry (JStr []) video_campaign_payload
     = Inr (u ''<br>'' @ [0x89C6, 0x9891, 0x5730, 0x5740, 0xFF1A]
            @ u ''<a href=https://www.bilibili.com/video/BV1xx>https://www.bilibili.com/video/BV1xx</a>'',
            JStr (u ''https://www.bilibili.com/video/BV1xx''))
 \<and> getUrl no_opts bvid_entry (JStr []) broken_live_payload = Inl TypeError
 \<and> only_signal live_payload (u ''roomid'')
 \<and> first_signal live_payload = Some (u ''roomid'')
 \<and> no_signal text_payload"
proof -
  have w1: "getUrl no_opts bvid_entry (JStr []) video_payload
       = Inr (u ''<br>'' @ [0x89C6, 0x9891, 0x5730, 0x5740, 0xFF1A]
              @ u ''<a href=https://www.bilibili.com/video/BV1xx>https://www.bilibili.com/video/BV1xx</a>'',
              JStr [])"
    using getUrl_first_match [of video_payload no_opts bvid_entry "JStr []"]
    by (simp add: payload_defs first_signal_def only_signal_def no_signal_def dispatch_signals_def
        getq_def nullish_def show_int_def digits.simps no_opts_def bvid_entry_def)
  have w2: "getUrl (no_opts\<lparr>useAvid := True\<rparr>) bvid_entry (JStr []) video_payload
       = Inr (u ''<br>'' @ [0x89C6, 0x9891, 0x5730, 0x5740, 0xFF1A]
              @ u ''<a href=https://www.bilibili.com/video/av170001>https://www.bilibili.com/video/av170001</a>'',
              JStr [])"
    using getUrl_first_match [of video_payload "no_opts\<lparr>useAvid := True\<rparr>" bvid_entry "JStr []"]
    by (simp add: payload_defs first_signal_def only_signal_def no_signal_def dispatch_signals_def
        getq_def nullish_def show_int_def digits.simps no_opts_def bvid_entry_def)
  have w3: "getUrl no_opts bvid_entry (JStr []) article_payload
       = Inr (u ''<br>'' @ [0x4E13, 0x680F, 0x5730, 0x5740, 0xFF1A]
              @ u ''<a href=https://www.bilibili.com/read/cv7>https://www.bilibili.com/read/cv7</a>'',
              JStr [])"
    using getUrl_first_match [of article_payload no_opts bvid_entry "JStr []"]
    by (simp add: payload_defs first_signal_def only_signal_def no_signal_def dispatch_signals_def
        getq_def nullish_def show_int_def digits.simps no_opts_def bvid_entry_def)
  have w4: "getUrl no_opts bvid_entry (JStr []) audio_payload
       = Inr (u ''<br>'' @ [0x97F3, 0x9891, 0x5730, 0x5740, 0xFF1A]
              @ u ''<a href=https://www.bilibili.com/audio/au9>https://www.bilibili.com/audio/au9</a>'',
              JStr [])"
    using getUrl_first_match [of audio_payload no_opts bvid_entry "JStr []"]
    by (simp add: payload_defs first_signal_def only_signal_def no_signal_def dispatch_signals_def
        getq_def nullish_def show_int_def digits.simps no_opts_def bvid_entry_def)
  have w5: "getUrl no_opts bvid_entry (JStr []) live_payload
       = Inr (u ''<br>'' @ [0x76F4, 0x64AD, 0x95F4, 0x5730, 0x5740, 0xFF1A]
              @ u ''<a href=https://live.bilibili.com/5>https://live.bilibili.com/5</a>'',
              JStr [])"
    using getUrl_first_match [of live_payload no_opts bvid_entry "JStr []"]
    by (simp add: payload_defs first_signal_def only_signal_def no_signal_def dispatch_signals_def
        getq_def nullish_def show_int_def digits.simps no_opts_def bvid_entry_def)
  have w6: "getUrl no_opts bvid_entry (JStr []) campaign_payload
       = Inr (u ''<br>'' @ [0x6D3B, 0x52A8, 0x5730, 0x5740, 0xFF1A]
              @ u ''<a href=https://b.cn/act>https://b.cn/act</a>'',
              JStr [])"
    using getUrl_first_match [of campaign_payload no_opts bvid_entry "JStr []"]
    by (simp add: payload_defs first_signal_def only_signal_def no_signal_def dispatch_signals_def
        getq_def nullish_def show_int_def digits.simps no_opts_def bvid_entry_def)
  have w7: "getUrl no_opts bvid_entry (JStr []) episode_payload
       = Inr (u ''<br>'' @ [0x5730, 0x5740, 0xFF1A]
              @ u ''<a href=https://b.cn/ep1>https://b.cn/ep1</a>'',
              JStr [])"
    using getUrl_first_match [of episode_payload no_opts bvid_entry "JStr []"]
    by (simp add: payload_defs first_signal_def only_signal_def no_signal_def dispatch_signals_def
        getq_def nullish_def show_int_def digits.simps no_opts_def bvid_entry_def)
  have w8: "getUrl no_opts bvid_entry (JStr []) text_payload = Inr ([], JStr [])"
    using getUrl_first_match [of text_payload no_opts bvid_entry "JStr []"]
    by (simp add: payload_defs first_signal_def only_signal_def no_signal_def dispatch_signals_def
        getq_def nullish_def show_int_def digits.simps no_opts_def bvid_entry_def)
  have w9: "getUrl (no_opts\<lparr>directLink := True\<rparr>) bvid_entry (JStr []) audio_live_payload
       = Inr (u ''<br>'' @ [0x97F3, 0x9891, 0x5730, 0x5740, 0xFF1A]
              @ u ''<a href=https://www.bilibili.com/audio/au9>https://www.bilibili.com/audio/au9</a>'',
              JStr (u ''https://www.bilibili.com/audio/au9''))"
    using getUrl_first_match [of audio_live_payload "no_opts\<lparr>directLink := True\<rparr>" bvid_entry "JStr []"]
    by (simp add: payload_defs first_signal_def only_signal_def no_signal_def dispatch_signals_def
        getq_def nullish_def show_int_def digits.simps no_opts_def bvid_entry_def)
  have w10: "getUrl (no_opts\<lparr>directLink := True\<rparr>) bvid_entry (JStr []) video_campaign_payload
       = Inr (u ''<br>'' @ [0x89C6, 0x9891, 0x5730, 0x5740, 0xFF1A]
              @ u ''<a href=https://www.bilibili.com/video/BV1xx>https://www.bilibili.com/video/BV1xx</a>'',
              JStr (u ''https://www.bilibili.com/video/BV1xx''))"
    using getUrl_first_match [of video_campaign_payload "no_opts\<lparr>directLink := True\<rparr>" bvid_entry "JStr []"]
    by (simp add: payload_defs first_signal_def only_signal_def no_signal_def dispatch_signals_def
        getq_def nullish_def show_int_def digits.simps no_opts_def bvid_entry_def)
  have w11: "getUrl no_opts bvid_entry (JStr []) broken_live_payload = Inl TypeError"
    using getUrl_first_match [of broken_live_payload no_opts bvid_entry "JStr []"]
    by (simp add: payload_defs first_signal_def only_signal_def no_signal_def dispatch_signals_def
        getq_def nullish_def show_int_def digits.simps no_opts_def bvid_entry_def)
  have w12: "only_signal live_payload (u ''roomid'')"
    by (simp add: payload_defs only_signal_def no_signal_def dispatch_signals_def)
  have w13: "first_signal live_payload = Some (u ''roomid'')"
    using getUrl_first_match [of live_payload no_opts bvid_entry "JStr []"]
    by (simp add: payload_defs first_signal_def only_signal_def no_signal_def dispatch_signals_def
        getq_def nullish_def show_int_def digits.simps no_opts_def bvid_entry_def)
  have w14: "no_signal text_payload"
    by (simp add: payload_defs only_signal_def no_signal_def dispatch_signals_def)
  show ?thesis
    using w1 w2 w3 w4 w5 w6 w7 w8 w9 w10 w11 w12 w13 w14 by (intro conjI)
qed

section \<open>Facts about the stages of the handler\<close>

lemma rbind_isl_all: "(\<And>x. isl (f x)) \<Longrightarrow> isl (rbind m f)"
  by (cases m) (auto simp: rbind_def)

lemma rbind_isl_first: "isl m \<Longrightarrow> isl (rbind m f)"
  by (cases m) (auto simp: rbind_def)


text \<open>The definitions to unfold when the handler is run on a sample entry.\<close>

lemmas handler_defs = normalize_def normalize_parsed_def item_of_def select_data_def parse_origin_def
  imgHTML_of_def getImgs_def pictures_imgs_def image_urls_imgs_def pic_img_def cover_img_def sketch_img_def
  img_tag_def videoHTML_of_def dynamic_link_def data_content_of_def emoji_subst_def full_article_def
  build_description_def originName_of_def getUrl_def resolve_url_def video_id_def url_of_def
  getIframe_def pubDate_of_def getTitle_def getDes_def or_else_def vest_content_def sketch_suffix_def
  getOriginDes_def season_text_def index_text_def getOriginName_def getOriginName_val_def
  getOriginTitle_def get_def getq_def nullish_def js_add_def big_def anchor_def show_int_def
  digits.simps Let_def force_https_def unescape_def upt_rec

lemmas sample_defs = sample_env_def parse_table_def no_opts_def rejecting_def sample_table_def
  sample_uid_def sample_author_def sample_desc_def json_string_def
  card_TD_def parsed_TD_def entry_no_display_def entry_TD_def cards_no_info_def
  card_article_def entry_article_def origin_broken_def card_bad_origin_def parsed_bad_origin_def
  entry_bad_origin_def card_doge_def parsed_doge_def doge_url_def entry_doge_def
  card_clip_def parsed_clip_def entry_clip_def card_quote_def parsed_quote_def entry_quote_def
  origin_live_def origin_episode_def card_repost_live_def parsed_repost_live_def
  entry_repost_live_def card_repost_episode_def parsed_repost_episode_def
  entry_repost_episode_def card_article_repost_def parsed_article_repost_def
  entry_article_repost_def untitled_item_def card_untitled_def parsed_untitled_def
  entry_untitled_def zh_forwarded_def payload_defs

lemma normalize_stages:
  assumes "normalize E opt uid auth entry = Inr it"
    and "JSONbig_parse E (field entry (u ''card'')) = Inr parsed"
    and "select_data parsed = Inr d"
    and "parse_origin E parsed = Inr origin"
  shows "\<exists>imgHTML videoHTML lnk dc r.
             imgHTML_of d origin = Inr imgHTML
           \<and> videoHTML_of d = Inr videoHTML
           \<and> dynamic_link entry d = Inr lnk
           \<and> data_content_of E opt uid entry d = Inr dc
           \<and> build_description E opt entry lnk d origin dc imgHTML videoHTML = Inr r
           \<and> description it = fst r \<and> link it = snd r \<and> title it = getTitle d"
  using assms
  by (auto simp: normalize_def normalize_parsed_def item_of_def get_def rbind_Inr_iff
      split: if_splits)

lemma select_data_not_nullish: "select_data parsed = Inr d \<Longrightarrow> \<not> nullish d"
  by (auto simp: select_data_def get_def rbind_Inr_iff nullish_def getTitle_def split: if_splits)

text \<open>
  The description of an item: the body, the text for the origin, a line break,
  the two link lines, the two embeds, the images and the video, each of them what
  the stage named beside it returned.
\<close>

lemma build_description_shape:
  assumes "build_description E opt entry lnk d origin dc imgHTML videoHTML = Inr r"
  shows "\<exists>body bodyText originName nameText r1 r2 f1 f2.
           (if truthy dc then Inr dc else getDes d) = Inr body
         \<and> to_string body = Inr bodyText
         \<and> originName_of origin = Inr originName
         \<and> to_string originName = Inr nameText
         \<and> getUrl opt entry lnk d = Inr r1
         \<and> getUrl opt entry (snd r1) origin = Inr r2
         \<and> getIframe E opt d = Inr f1
         \<and> getIframe E opt origin = Inr f2
         \<and> fst r = bodyText @ nameText @ u ''<br>'' @ fst r1 @ fst r2 @ f1 @ f2
             @ (if imgHTML \<noteq> [] then u ''<br>'' @ imgHTML else [])
             @ (if videoHTML \<noteq> [] then u ''<br>'' @ videoHTML else [])
         \<and> snd r = snd r2"
proof -
  from assms obtain body originName head r1 r2 f1 f2 where
    b: "(if truthy dc then Inr dc else getDes d) = Inr body"
    and o: "originName_of origin = Inr originName"
    and h: "template [Val body, Val originName, Lit (u ''<br>'')] = Inr head"
    and u1: "getUrl opt entry lnk d = Inr r1"
    and u2: "getUrl opt entry (snd r1) origin = Inr r2"
    and i1: "getIframe E opt d = Inr f1"
    and i2: "getIframe E opt origin = Inr f2"
    and r: "r = (head @ fst r1 @ fst r2 @ f1 @ f2
             @ (if imgHTML \<noteq> [] then u ''<br>'' @ imgHTML else [])
             @ (if videoHTML \<noteq> [] then u ''<br>'' @ videoHTML else []), snd r2)"
    unfolding build_description_def Let_def rbind_Inr_iff by blast
  from h obtain bodyText nameText where
    t: "to_string body = Inr bodyText" "to_string originName = Inr nameText"
    and hd: "head = bodyText @ nameText @ u ''<br>''"
    by (auto simp: rbind_Inr_iff)
  have "fst r = bodyText @ nameText @ u ''<br>'' @ fst r1 @ fst r2 @ f1 @ f2
             @ (if imgHTML \<noteq> [] then u ''<br>'' @ imgHTML else [])
             @ (if videoHTML \<noteq> [] then u ''<br>'' @ videoHTML else [])"
    unfolding r hd by simp
  moreover have "snd r = snd r2" unfolding r by simp
  ultimately show ?thesis
    using b o t u1 u2 i1 i2 by blast
qed

lemma description_shape:
  assumes "normalize E opt uid auth entry = Inr it"
    and "JSONbig_parse E (field entry (u ''card'')) = Inr parsed"
    and "select_data parsed = Inr d"
    and "parse_origin E parsed = Inr origin"
  shows "\<exists>imgHTML videoHTML lnk dc body bodyText originName nameText r1 r2 f1 f2.
           imgHTML_of d origin = Inr imgHTML
         \<and> videoHTML_of d = Inr videoHTML
         \<and> dynamic_link entry d = Inr lnk
         \<and> data_content_of E opt uid entry d = Inr dc
         \<and> (if truthy dc then Inr dc else getDes d) = Inr body
         \<and> to_string body = Inr bodyText
         \<and> originName_of origin = Inr originName
         \<and> to_string originName = Inr nameText
         \<and> getUrl opt entry lnk d = Inr r1
         \<and> getUrl opt entry (snd r1) origin = Inr r2
         \<and> getIframe E opt d = Inr f1
         \<and> getIframe E opt origin = Inr f2
         \<and> description it =
             bodyText @ nameText @ u ''<br>'' @ fst r1 @ fst r2 @ f1 @ f2
             @ (if imgHTML \<noteq> [] then u ''<br>'' @ imgHTML else [])
             @ (if videoHTML \<noteq> [] then u ''<br>'' @ videoHTML else [])
         \<and> link it = snd r2"
proof -
  from normalize_stages [OF assms] obtain imgHTML videoHTML lnk dc r where
    s: "imgHTML_of d origin = Inr imgHTML" "videoHTML_of d = Inr videoHTML"
      "dynamic_link entry d = Inr lnk" "data_content_of E opt uid entry d = Inr dc"
    and b: "build_description E opt entry lnk d origin dc imgHTML videoHTML = Inr r"
    and e: "description it = fst r" "link it = snd r"
    by blast
  from build_description_shape [OF b] s e show ?thesis
    by (metis (no_types, lifting))
qed

text \<open>What an absent origin contributes: nothing.\<close>

lemma no_origin_parts:
  assumes "\<not> truthy origin"
  shows "originName_of origin = Inr (JStr [])" "getUrl opt entry lnk origin = Inr ([], lnk)"
    "getIframe E opt origin = Inr []" "imgHTML_of d origin = getImgs d"
proof -
  show "originName_of origin = Inr (JStr [])"
    using assms by (simp add: originName_of_def getOriginDes_def)
  show "getUrl opt entry lnk origin = Inr ([], lnk)"
    using assms by (simp add: getUrl_def resolve_url_def)
  show "getIframe E opt origin = Inr []"
    using assms by (simp add: getIframe_def)
  show "imgHTML_of d origin = getImgs d"
    using assms by (cases "getImgs d") (simp_all add: imgHTML_of_def)
qed

lemma sample_parse:
  "JSONbig_parse (sample_env sample_table) (field entry_TD (u ''card'')) = Inr parsed_TD"
  "JSONbig_parse (sample_env sample_table) (field entry_clip (u ''card'')) = Inr parsed_clip"
  "JSONbig_parse (sample_env sample_table) (field entry_article_repost (u ''card''))
     = Inr parsed_article_repost"
  "JSONbig_parse (sample_env sample_table) (field entry_repost_live (u ''card''))
     = Inr parsed_repost_live"
  "JSONbig_parse (sample_env sample_table) (field entry_repost_episode (u ''card''))
     = Inr parsed_repost_episode"
  "JSONbig_parse (sample_env sample_table) (field entry_untitled (u ''card''))
     = Inr parsed_untitled"
  by (simp_all add: sample_defs)

lemma sample_select:
  "select_data parsed_TD = Inr titled_payload"
  "select_data parsed_clip = Inr (field parsed_clip (u ''item''))"
  "select_data parsed_article_repost = Inr parsed_article_repost"
  "select_data parsed_repost_live = Inr (field parsed_repost_live (u ''item''))"
  "select_data parsed_repost_episode = Inr (field parsed_repost_episode (u ''item''))"
  by (simp_all add: select_data_def get_def nullish_def getTitle_def sample_defs)

lemma sample_origin:
  "parse_origin (sample_env sample_table) parsed_TD = Inr JNull"
  "parse_origin (sample_env sample_table) parsed_clip = Inr JNull"
  "parse_origin (sample_env sample_table) parsed_article_repost = Inr live_payload"
  "parse_origin (sample_env sample_table) parsed_repost_live = Inr live_payload"
  "parse_origin (sample_env sample_table) parsed_repost_episode = Inr episode_payload"
  by (simp_all add: parse_origin_def get_def nullish_def sample_defs)

lemma sample_normalizes:
  "\<exists>it. normalize (sample_env sample_table) no_opts sample_uid sample_author entry_TD = Inr it"
  "\<exists>it. normalize (sample_env sample_table) (no_opts\<lparr>directLink := True\<rparr>) sample_uid
         sample_author entry_article_repost = Inr it"
  "\<exists>it. normalize (sample_env sample_table) no_opts sample_uid sample_author
         entry_article_repost = Inr it"
  "\<exists>it. normalize (sample_env sample_table) no_opts sample_uid sample_author
         entry_repost_live = Inr it"
  "\<exists>it. normalize (sample_env sample_table) no_opts sample_uid sample_author
         entry_repost_episode = Inr it"
  by (simp_all add: handler_defs sample_defs)

section \<open>Payload selection\<close>

text \<open>
  A nested \<^verbatim>\<open>item\<close> is read by no extractor once the top-level payload is chosen:
  each of them reads fixed fields of the payload it is given, and \<^verbatim>\<open>item\<close> is not one
  of them.
\<close>

lemma getImgs_item: "getImgs (JObj ((u ''item'', x) # kvs)) = getImgs (JObj kvs)"
  by (simp add: getImgs_def get_def nullish_def pic_img_def cover_img_def sketch_img_def)

lemma getTitle_item: "getTitle (JObj ((u ''item'', x) # kvs)) = getTitle (JObj kvs)"
  by (simp add: getTitle_def)

lemma getDes_item: "getDes (JObj ((u ''item'', x) # kvs)) = getDes (JObj kvs)"
  by (simp add: getDes_def nullish_def vest_content_def sketch_suffix_def)

lemma videoHTML_item: "videoHTML_of (JObj ((u ''item'', x) # kvs)) = videoHTML_of (JObj kvs)"
  by (simp add: videoHTML_of_def)

lemma dynamic_link_item:
  "dynamic_link entry (JObj ((u ''item'', x) # kvs)) = dynamic_link entry (JObj kvs)"
  by (simp add: dynamic_link_def)

lemma full_article_item:
  "full_article E opt uid (JObj ((u ''item'', x) # kvs)) s = full_article E opt uid (JObj kvs) s"
  by (simp add: full_article_def)

lemma resolve_url_item:
  "resolve_url opt entry (JObj ((u ''item'', x) # kvs)) = resolve_url opt entry (JObj kvs)"
  by (simp add: resolve_url_def video_id_def)

lemma getIframe_item: "getIframe E opt (JObj ((u ''item'', x) # kvs)) = getIframe E opt (JObj kvs)"
  by (simp add: getIframe_def)

lemma item_of_item:
  "item_of E opt uid auth entry (JObj ((u ''item'', x) # kvs)) origin
   = item_of E opt uid auth entry (JObj kvs) origin"
  unfolding item_of_def imgHTML_of_def data_content_of_def build_description_def
      getUrl_def getImgs_item getTitle_item getDes_item videoHTML_item dynamic_link_item
      full_article_item resolve_url_item getIframe_item
  by (rule refl)

lemma parse_origin_item:
  "parse_origin E (JObj ((u ''item'', x) # kvs)) = parse_origin E (JObj kvs)"
  by (simp add: parse_origin_def get_def nullish_def)

lemma ignored_item:
  assumes "\<not> truthy (getTitle x)" and "\<not> truthy (getTitle (field (JObj kvs) (u ''item'')))"
  shows "normalize_parsed E opt uid auth entry (JObj ((u ''item'', x) # kvs))
       = normalize_parsed E opt uid auth entry (JObj kvs)"
proof -
  have a: "select_data (JObj ((u ''item'', x) # kvs)) = Inr (JObj ((u ''item'', x) # kvs))"
    using assms(1) by (simp add: select_data_def get_def nullish_def)
  have b: "select_data (JObj kvs) = Inr (JObj kvs)"
    using assms(2) by (simp add: select_data_def get_def nullish_def)
  show ?thesis
    unfolding normalize_parsed_def parse_origin_item a b rbind_Inr item_of_item
    by (rule refl)
qed

text \<open>
  Claim C10. For every entry whose card parses, title, description, images,
  inline video and link are all computed by \<open>item_of\<close> on one payload: the nested
  \<^verbatim>\<open>item\<close> exactly when \<^verbatim>\<open>getTitle\<close> of it is truthy (for a string: not empty, that
  is, the item has a non-empty title, description, content or vest.content), and
  the top-level parsed payload otherwise. In the second case the nested item is
  ignored entirely, pictures included: the result is the one of the payload
  without that item.
\<close>

theorem payload_selection:
  assumes "JSONbig_parse E (field entry (u ''card'')) = Inr parsed"
    and "\<not> nullish entry" and "\<not> nullish parsed"
  shows "normalize E opt uid auth entry
           = rbind (parse_origin E parsed)
               (item_of E opt uid auth entry
                  (if truthy (getTitle (field parsed (u ''item'')))
                   then field parsed (u ''item'') else parsed))
       \<and> (parsed = JObj ((u ''item'', x) # kvs) \<and> \<not> truthy (getTitle x)
           \<and> \<not> truthy (getTitle (field (JObj kvs) (u ''item'')))
           \<longrightarrow> normalize E opt uid auth entry
                 = normalize_parsed E opt uid auth entry (JObj kvs))"
proof -
  have n: "normalize E opt uid auth entry = normalize_parsed E opt uid auth entry parsed"
    using assms by (simp add: normalize_def get_def)
  have sel: "normalize_parsed E opt uid auth entry parsed
           = rbind (parse_origin E parsed)
               (item_of E opt uid auth entry
                  (if truthy (getTitle (field parsed (u ''item'')))
                   then field parsed (u ''item'') else parsed))"
    using assms(3) by (simp add: normalize_parsed_def select_data_def get_def)
  show ?thesis
  proof (intro conjI impI)
    show "normalize E opt uid auth entry
           = rbind (parse_origin E parsed)
               (item_of E opt uid auth entry
                  (if truthy (getTitle (field parsed (u ''item'')))
                   then field parsed (u ''item'') else parsed))"
      unfolding n by (rule sel)
  next
    assume "parsed = JObj ((u ''item'', x) # kvs) \<and> \<not> truthy (getTitle x)
           \<and> \<not> truthy (getTitle (field (JObj kvs) (u ''item'')))"
    then have p: "parsed = JObj ((u ''item'', x) # kvs)" and t1: "\<not> truthy (getTitle x)"
      and t2: "\<not> truthy (getTitle (field (JObj kvs) (u ''item'')))"
      by blast+
    show "normalize E opt uid auth entry = normalize_parsed E opt uid auth entry (JObj kvs)"
      unfolding n p by (rule ignored_item [OF t1 t2])
  qed
qed

text \<open>
  The theorem at an entry whose nested item has a picture and an empty title
  (the picture does not reach the description), and at the entry of the round
  trip, whose item has a title.
\<close>

theorem payload_selection_witness:
  "normalize (sample_env sample_table) no_opts sample_uid sample_author entry_untitled
     = rbind (parse_origin (sample_env sample_table) parsed_untitled)
         (item_of (sample_env sample_table) no_opts sample_uid sample_author entry_untitled
            parsed_untitled)
 \<and> normalize (sample_env sample_table) no_opts sample_uid sample_author entry_untitled
     = normalize_parsed (sample_env sample_table) no_opts sample_uid sample_author
         entry_untitled (JObj [(u ''dynamic'', JStr (u ''top''))])
 \<and> normalize (sample_env sample_table) no_opts sample_uid sample_author entry_untitled
     = Inr \<lparr>title = JStr [], description = u ''top<br>'', pubDate = None, link = JStr [],
            author = sample_author\<rparr>
 \<and> normalize (sample_env sample_table) no_opts sample_uid sample_author entry_TD
     = rbind (parse_origin (sample_env sample_table) parsed_TD)
         (item_of (sample_env sample_table) no_opts sample_uid sample_author entry_TD
            titled_payload)"
proof -
  let ?E = "sample_env sample_table"
  have nn: "\<not> nullish entry_untitled" "\<not> nullish parsed_untitled"
    "\<not> nullish entry_TD" "\<not> nullish parsed_TD"
    by (simp_all add: nullish_def sample_defs)
  have p: "parsed_untitled = JObj ((u ''item'', untitled_item) # [(u ''dynamic'', JStr (u ''top''))])"
    by (simp add: parsed_untitled_def)
  have t: "\<not> truthy (getTitle untitled_item)"
    "\<not> truthy (getTitle (field (JObj [(u ''dynamic'', JStr (u ''top''))]) (u ''item'')))"
    "\<not> truthy (getTitle (field parsed_untitled (u ''item'')))"
    "truthy (getTitle (field parsed_TD (u ''item'')))"
    "field parsed_TD (u ''item'') = titled_payload"
    by (simp_all add: getTitle_def sample_defs)
  note a = payload_selection [OF sample_parse(6) nn(1,2), of no_opts sample_uid sample_author
      untitled_item "[(u ''dynamic'', JStr (u ''top''))]"]
  note b = payload_selection [OF sample_parse(1) nn(3,4), of no_opts sample_uid sample_author]
  have one: "normalize ?E no_opts sample_uid sample_author entry_untitled
     = rbind (parse_origin ?E parsed_untitled)
         (item_of ?E no_opts sample_uid sample_author entry_untitled parsed_untitled)"
    using a t(3) by simp
  have two: "normalize ?E no_opts sample_uid sample_author entry_untitled
     = normalize_parsed ?E no_opts sample_uid sample_author
         entry_untitled (JObj [(u ''dynamic'', JStr (u ''top''))])"
    using a p t(1,2) by blast
  have three: "normalize ?E no_opts sample_uid sample_author entry_untitled
     = Inr \<lparr>title = JStr [], description = u ''top<br>'', pubDate = None, link = JStr [],
            author = sample_author\<rparr>"
    unfolding two by (simp add: handler_defs sample_defs)
  have four: "normalize ?E no_opts sample_uid sample_author entry_TD
     = rbind (parse_origin ?E parsed_TD)
         (item_of ?E no_opts sample_uid sample_author entry_TD titled_payload)"
    using b t(4,5) by simp
  show ?thesis using one two three four by blast
qed

section \<open>Permalink\<close>

lemma getUrl_link:
  assumes "getUrl opt entry lnk d = Inr r"
  shows "\<exists>ru. resolve_url opt entry d = Inr ru
           \<and> snd r = (if directLink opt then (case ru of Some (l, url) \<Rightarrow> url | None \<Rightarrow> lnk)
                      else lnk)"
proof -
  from assms obtain ru where
    ru: "resolve_url opt entry d = Inr ru"
    and c: "(case ru of
               None \<Rightarrow> Inr ([], lnk)
             | Some (label, url) \<Rightarrow>
                 rbind (anchor label url)
                   (\<lambda>line. Inr (line, if directLink opt then url else lnk))) = Inr r"
    unfolding getUrl_def rbind_Inr_iff by blast
  have "snd r = (if directLink opt then (case ru of Some (l, url) \<Rightarrow> url | None \<Rightarrow> lnk)
                 else lnk)"
  proof (cases ru)
    case None
    with c show ?thesis by auto
  next
    case (Some p)
    obtain l url where p: "p = (l, url)" by (cases p)
    from c show ?thesis
      unfolding Some p by (auto simp: rbind_Inr_iff)
  qed
  with ru show ?thesis by blast
qed

text \<open>
  Claim C6. For an entry that normalizes, both payloads resolve (to a URL or to
  none) and the permalink is made from the dynamic id; with \<^verbatim>\<open>directLink\<close> the
  permalink of the item is the resolved content URL, the one of the origin if the
  origin resolves one (its write runs second), else the one of the main payload,
  else the permalink made from the dynamic id; without \<^verbatim>\<open>directLink\<close> it is the
  permalink made from the dynamic id, whatever was resolved. That permalink comes
  from the payload's \<^verbatim>\<open>dynamic_id\<close>, else from \<^verbatim>\<open>desc.dynamic_id\<close> of the entry.
\<close>

theorem permalink_selection:
  assumes "normalize E opt uid auth entry = Inr it"
    and "JSONbig_parse E (field entry (u ''card'')) = Inr parsed"
    and "select_data parsed = Inr d"
    and "parse_origin E parsed = Inr origin"
  shows "\<exists>lnk rd ro.
           dynamic_link entry d = Inr lnk
         \<and> resolve_url opt entry d = Inr rd
         \<and> resolve_url opt entry origin = Inr ro
         \<and> link it = (if directLink opt
                      then (case ro of
                              Some (l, url) \<Rightarrow> url
                            | None \<Rightarrow> (case rd of
                                         Some (l, url) \<Rightarrow> url
                                       | None \<Rightarrow> lnk))
                      else lnk)
         \<and> (truthy (field d (u ''dynamic_id'')) \<longrightarrow>
               (\<exists>t. to_string (field d (u ''dynamic_id'')) = Inr t
                    \<and> lnk = JStr (u ''https://t.bilibili.com/'' @ t)))
         \<and> (\<not> truthy (field d (u ''dynamic_id''))
              \<and> truthy (getq (field entry (u ''desc'')) (u ''dynamic_id'')) \<longrightarrow>
               (\<exists>t. to_string (field (field entry (u ''desc'')) (u ''dynamic_id'')) = Inr t
                    \<and> lnk = JStr (u ''https://t.bilibili.com/'' @ t)))
         \<and> (\<not> truthy (field d (u ''dynamic_id''))
              \<and> \<not> truthy (getq (field entry (u ''desc'')) (u ''dynamic_id'')) \<longrightarrow>
               lnk = JStr [])"
proof -
  from description_shape [OF assms] obtain lnk r1 r2 where
    l: "dynamic_link entry d = Inr lnk"
    and u1: "getUrl opt entry lnk d = Inr r1"
    and u2: "getUrl opt entry (snd r1) origin = Inr r2"
    and k: "link it = snd r2"
    by blast
  from getUrl_link [OF u1] obtain rd where
    rd: "resolve_url opt entry d = Inr rd"
    and s1: "snd r1 = (if directLink opt then (case rd of Some (l, url) \<Rightarrow> url | None \<Rightarrow> lnk)
                      else lnk)"
    by blast
  from getUrl_link [OF u2] obtain ro where
    ro: "resolve_url opt entry origin = Inr ro"
    and s2: "snd r2 = (if directLink opt
                       then (case ro of Some (l, url) \<Rightarrow> url | None \<Rightarrow> snd r1)
                       else snd r1)"
    by blast
  have lk: "link it = (if directLink opt
                      then (case ro of
                              Some (l, url) \<Rightarrow> url
                            | None \<Rightarrow> (case rd of
                                         Some (l, url) \<Rightarrow> url
                                       | None \<Rightarrow> lnk))
                      else lnk)"
    unfolding k s2 s1 by (simp split: option.splits)
  have a: "truthy (field d (u ''dynamic_id'')) \<longrightarrow>
               (\<exists>t. to_string (field d (u ''dynamic_id'')) = Inr t
                    \<and> lnk = JStr (u ''https://t.bilibili.com/'' @ t))"
    using l by (auto simp: dynamic_link_def rbind_Inr_iff)
  have b: "\<not> truthy (field d (u ''dynamic_id''))
              \<and> truthy (getq (field entry (u ''desc'')) (u ''dynamic_id'')) \<longrightarrow>
               (\<exists>t. to_string (field (field entry (u ''desc'')) (u ''dynamic_id'')) = Inr t
                    \<and> lnk = JStr (u ''https://t.bilibili.com/'' @ t))"
    using l by (auto simp: dynamic_link_def rbind_Inr_iff)
  have c: "\<not> truthy (field d (u ''dynamic_id''))
              \<and> \<not> truthy (getq (field entry (u ''desc'')) (u ''dynamic_id'')) \<longrightarrow>
               lnk = JStr []"
    using l by (auto simp: dynamic_link_def)
  show ?thesis
    using l rd ro lk a b c by blast
qed

text \<open>
  The theorem at an article payload that carries a live room as its origin: both
  resolve a URL, and the live room wins; without \<^verbatim>\<open>directLink\<close> the permalink is
  the one of the dynamic id 123.
\<close>

theorem permalink_selection_witness:
  "(\<exists>it. normalize (sample_env sample_table) (no_opts\<lparr>directLink := True\<rparr>) sample_uid
            sample_author entry_article_repost = Inr it
        \<and> link it = JStr (u ''https://live.bilibili.com/5''))
 \<and> (\<exists>it. normalize (sample_env sample_table) no_opts sample_uid sample_author
            entry_article_repost = Inr it
        \<and> link it = JStr (u ''https://t.bilibili.com/123''))"
proof -
  let ?E = "sample_env sample_table"
  let ?L = "no_opts\<lparr>directLink := True\<rparr>"
  have ro: "resolve_url opt entry_article_repost live_payload
      = Inr (Some (label_live, JStr (u ''https://live.bilibili.com/5'')))" for opt
    by (simp add: resolve_url_def url_of_def live_payload_def show_int_def digits.simps)
  have dl: "\<not> truthy (field parsed_article_repost (u ''dynamic_id''))"
    "truthy (getq (field entry_article_repost (u ''desc'')) (u ''dynamic_id''))"
    "to_string (field (field entry_article_repost (u ''desc'')) (u ''dynamic_id''))
       = Inr (u ''123'')"
    by (simp_all add: parsed_article_repost_def entry_article_repost_def sample_desc_def
        getq_def nullish_def show_int_def digits.simps)
  obtain it where it: "normalize ?E ?L sample_uid sample_author entry_article_repost = Inr it"
    using sample_normalizes(2) by blast
  from permalink_selection [OF it sample_parse(3) sample_select(3) sample_origin(3)]
  have "link it = JStr (u ''https://live.bilibili.com/5'')"
    unfolding ro by (auto simp: no_opts_def)
  with it have one: "\<exists>it. normalize ?E ?L sample_uid sample_author entry_article_repost = Inr it
        \<and> link it = JStr (u ''https://live.bilibili.com/5'')"
    by blast
  obtain it' where
    it': "normalize ?E no_opts sample_uid sample_author entry_article_repost = Inr it'"
    using sample_normalizes(3) by blast
  from permalink_selection [OF it' sample_parse(3) sample_select(3) sample_origin(3)] dl
  have "link it' = JStr (u ''https://t.bilibili.com/123'')"
    by (auto simp: no_opts_def)
  with it' have two: "\<exists>it. normalize ?E no_opts sample_uid sample_author
            entry_article_repost = Inr it
        \<and> link it = JStr (u ''https://t.bilibili.com/123'')"
    by blast
  show ?thesis using one two by (rule conjI)
qed

section \<open>Inline video\<close>

text \<open>
  For an entry that normalizes, the video element is the end of the description
  whenever the payload has a truthy \<^verbatim>\<open>video_playurl\<close>; no route parameter takes
  part.
\<close>

lemma video_fragment_suffix:
  assumes "normalize E opt uid auth entry = Inr it"
    and "JSONbig_parse E (field entry (u ''card'')) = Inr parsed"
    and "select_data parsed = Inr d"
    and "parse_origin E parsed = Inr origin"
    and "truthy (field d (u ''video_playurl''))"
  shows "\<exists>video. videoHTML_of d = Inr video \<and> video \<noteq> []
           \<and> suffix (u ''<br>'' @ video) (description it)"
proof -
  from description_shape [OF assms(1-4)] obtain video pre imgs where
    v: "videoHTML_of d = Inr video"
    and d: "description it = pre @ (if imgs \<noteq> [] then u ''<br>'' @ imgs else [])
             @ (if video \<noteq> [] then u ''<br>'' @ video else [])"
    by (metis (no_types, lifting) append.assoc)
  have ne: "video \<noteq> []"
    using v assms(5) by (auto simp: videoHTML_of_def rbind_Inr_iff)
  have "description it = (pre @ (if imgs \<noteq> [] then u ''<br>'' @ imgs else []))
             @ (u ''<br>'' @ video)"
    unfolding d using ne by simp
  then have "suffix (u ''<br>'' @ video) (description it)"
    by (rule suffixI)
  with v ne show ?thesis by blast
qed

text \<open>
  Claim C4 does not hold of the code. For a short-video entry and
  \<^verbatim>\<open>disableEmbed\<close> set, the description still ends with the \<^verbatim>\<open><video>\<close> element
  (the same one as without the parameter): lines 193 to 196 do not read
  \<^verbatim>\<open>disableEmbed\<close>. The sibling embed \<^verbatim>\<open>getIframe\<close> (line 145) does: for a video
  payload it gives the iframe without the parameter and nothing with it.
\<close>

theorem video_emitted_despite_disableEmbed:
  \<open>disableEmbed (no_opts\<lparr>disableEmbed := True\<rparr>)
 \<and> normalize (sample_env sample_table) (no_opts\<lparr>disableEmbed := True\<rparr>) sample_uid
       sample_author entry_clip
     = Inr \<lparr>title = JStr (u ''clip''),
            description = u ''clip<br><br><video width="480" height="360" controls><source src="https://v.cn/a.mp4"><source src="http://v.cn/a.mp4"></video>'',
            pubDate = None, link = JStr [], author = sample_author\<rparr>
 \<and> normalize (sample_env sample_table) no_opts sample_uid sample_author entry_clip
     = Inr \<lparr>title = JStr (u ''clip''),
            description = u ''clip<br><br><video width="480" height="360" controls><source src="https://v.cn/a.mp4"><source src="http://v.cn/a.mp4"></video>'',
            pubDate = None, link = JStr [], author = sample_author\<rparr>
 \<and> getIframe (sample_env sample_table) no_opts video_payload
     = Inr (u ''<br><br><iframe aid=170001></iframe><br>'')
 \<and> getIframe (sample_env sample_table) (no_opts\<lparr>disableEmbed := True\<rparr>) video_payload
     = Inr []\<close>
  by (simp add: handler_defs sample_defs hexval_def decode_escape_def)

section \<open>Repost prefix\<close>

lemma originName_named:
  assumes "truthy origin" "truthy (getOriginName_val origin)"
    and "originName_of origin = Inr originName"
  shows "\<exists>name t des desText.
           to_string (getOriginName_val origin) = Inr name
         \<and> getOriginTitle (ors [field origin (u ''item''), origin]) = Inr t
         \<and> getDes (ors [field origin (u ''item''), origin]) = Inr des
         \<and> to_string des = Inr desText
         \<and> originName = JStr (u ''<br><br>'' @ zh_forwarded @ u ''@'' @ name @ u '': ''
                              @ t @ desText)"
proof -
  have "\<not> nullish origin" using assms(1) by (auto simp: nullish_def)
  then show ?thesis
    using assms
    by (auto simp: originName_of_def getOriginName_def rbind_Inr_iff)
qed

lemma originName_season:
  assumes "truthy origin" "\<not> truthy (getOriginName_val origin)"
    "truthy (field (field origin (u ''apiSeasonInfo'')) (u ''title''))"
    and "originName_of origin = Inr originName"
  shows "\<exists>season rest.
           to_string (field (field origin (u ''apiSeasonInfo'')) (u ''title'')) = Inr season
         \<and> originName = JStr (zh_forwarded @ season @ rest)"
proof -
  have a: "truthy (field origin (u ''apiSeasonInfo''))"
    by (rule truthy_field_obj [OF assms(3)]) simp
  have "\<not> nullish origin" using assms(1) by (auto simp: nullish_def)
  then have g: "getOriginDes origin = Inr originName"
    using assms(1,2,4) by (simp add: originName_of_def getOriginName_def)
  from g assms(1,3) a obtain season b s where
    t: "to_string (field (field origin (u ''apiSeasonInfo'')) (u ''title'')) = Inr season"
    and b: "index_text origin = Inr b"
    and s: "js_add (JStr (zh_forwarded @ season)) b = Inr s"
    and o: "originName = ors [s, JStr []]"
    by (auto simp: getOriginDes_def season_text_def rbind_Inr_iff)
  from s obtain pb sb where
    "to_primitive b = Inr pb" "to_string pb = Inr sb" "s = JStr ((zh_forwarded @ season) @ sb)"
    by (auto simp: js_add_def rbind_Inr_iff)
  then have "originName = JStr (zh_forwarded @ season @ sb)"
    unfolding o by (simp add: zh_forwarded_def)
  with t show ?thesis by blast
qed

text \<open>
  Claim C9, as the code has it. For an entry that normalizes:
  if its origin is present and yields a non-empty author name, the description
  contains \<^verbatim>\<open><br><br>//...: @\<close>, that name, \<^verbatim>\<open>: \<close>, the origin's title prefix and the
  origin's description (\<^verbatim>\<open>//...: \<close> stands for \<open>zh_forwarded\<close>);
  if the origin yields no author name but has a season title, the description
  contains the shorter \<^verbatim>\<open>//...: \<close> followed by the season title;
  if there is no origin, no prefix is inserted: the description is the body, a
  line break, and the link, embed, images and video of the main payload (so it
  holds the marker only where one of these does).
\<close>

theorem repost_prefix:
  assumes "normalize E opt uid auth entry = Inr it"
    and "JSONbig_parse E (field entry (u ''card'')) = Inr parsed"
    and "select_data parsed = Inr d"
    and "parse_origin E parsed = Inr origin"
  shows "(truthy origin \<and> truthy (getOriginName_val origin) \<longrightarrow>
           (\<exists>name t des desText.
               to_string (getOriginName_val origin) = Inr name
             \<and> getOriginTitle (ors [field origin (u ''item''), origin]) = Inr t
             \<and> getDes (ors [field origin (u ''item''), origin]) = Inr des
             \<and> to_string des = Inr desText
             \<and> sublist (u ''<br><br>'' @ zh_forwarded @ u ''@'' @ name @ u '': '' @ t @ desText)
                       (description it)))
       \<and> (truthy origin \<and> \<not> truthy (getOriginName_val origin)
           \<and> truthy (field (field origin (u ''apiSeasonInfo'')) (u ''title'')) \<longrightarrow>
           (\<exists>season.
               to_string (field (field origin (u ''apiSeasonInfo'')) (u ''title'')) = Inr season
             \<and> sublist (zh_forwarded @ season) (description it)))
       \<and> (\<not> truthy origin \<longrightarrow>
           (\<exists>imgs video lnk dc body bodyText r1 f1.
               getImgs d = Inr imgs
             \<and> videoHTML_of d = Inr video
             \<and> dynamic_link entry d = Inr lnk
             \<and> data_content_of E opt uid entry d = Inr dc
             \<and> (if truthy dc then Inr dc else getDes d) = Inr body
             \<and> to_string body = Inr bodyText
             \<and> getUrl opt entry lnk d = Inr r1
             \<and> getIframe E opt d = Inr f1
             \<and> description it =
                 bodyText @ u ''<br>'' @ fst r1 @ f1
                 @ (if imgs \<noteq> [] then u ''<br>'' @ imgs else [])
                 @ (if video \<noteq> [] then u ''<br>'' @ video else [])))"
proof -
  from description_shape [OF assms] obtain imgHTML video lnk dc body bodyText originName
      nameText r1 r2 f1 f2 where
    p: "imgHTML_of d origin = Inr imgHTML" "videoHTML_of d = Inr video"
      "dynamic_link entry d = Inr lnk" "data_content_of E opt uid entry d = Inr dc"
      "(if truthy dc then Inr dc else getDes d) = Inr body" "to_string body = Inr bodyText"
    and o: "originName_of origin = Inr originName" "to_string originName = Inr nameText"
    and g: "getUrl opt entry lnk d = Inr r1" "getUrl opt entry (snd r1) origin = Inr r2"
      "getIframe E opt d = Inr f1" "getIframe E opt origin = Inr f2"
    and d: "description it =
             bodyText @ nameText @ u ''<br>'' @ fst r1 @ fst r2 @ f1 @ f2
             @ (if imgHTML \<noteq> [] then u ''<br>'' @ imgHTML else [])
             @ (if video \<noteq> [] then u ''<br>'' @ video else [])"
    by blast
  have mid: "sublist nameText (description it)"
    unfolding d by (rule sublist_appendI)
  have one: "\<exists>name t des desText.
               to_string (getOriginName_val origin) = Inr name
             \<and> getOriginTitle (ors [field origin (u ''item''), origin]) = Inr t
             \<and> getDes (ors [field origin (u ''item''), origin]) = Inr des
             \<and> to_string des = Inr desText
             \<and> sublist (u ''<br><br>'' @ zh_forwarded @ u ''@'' @ name @ u '': '' @ t @ desText)
                       (description it)"
    if "truthy origin" "truthy (getOriginName_val origin)"
  proof -
    from originName_named [OF that o(1)] obtain name t des desText where
      n: "to_string (getOriginName_val origin) = Inr name"
        "getOriginTitle (ors [field origin (u ''item''), origin]) = Inr t"
        "getDes (ors [field origin (u ''item''), origin]) = Inr des"
        "to_string des = Inr desText"
      and e: "originName = JStr (u ''<br><br>'' @ zh_forwarded @ u ''@'' @ name @ u '': ''
                              @ t @ desText)"
      by blast
    have "nameText = u ''<br><br>'' @ zh_forwarded @ u ''@'' @ name @ u '': '' @ t @ desText"
      using o(2) unfolding e by simp
    with mid have "sublist (u ''<br><br>'' @ zh_forwarded @ u ''@'' @ name @ u '': '' @ t
                            @ desText) (description it)"
      by (simp only:)
    with n show ?thesis by blast
  qed
  have two: "\<exists>season.
               to_string (field (field origin (u ''apiSeasonInfo'')) (u ''title'')) = Inr season
             \<and> sublist (zh_forwarded @ season) (description it)"
    if "truthy origin" "\<not> truthy (getOriginName_val origin)"
      "truthy (field (field origin (u ''apiSeasonInfo'')) (u ''title''))"
  proof -
    from originName_season [OF that o(1)] obtain season rest where
      t: "to_string (field (field origin (u ''apiSeasonInfo'')) (u ''title'')) = Inr season"
      and e: "originName = JStr (zh_forwarded @ season @ rest)"
      by blast
    have "nameText = (zh_forwarded @ season) @ rest"
      using o(2) unfolding e by simp
    then have "sublist (zh_forwarded @ season) nameText"
      by (metis append_Nil sublist_appendI)
    then have "sublist (zh_forwarded @ season) (description it)"
      using mid by (rule sublist_order.order_trans)
    with t show ?thesis by blast
  qed
  have three: "\<exists>imgs video lnk dc body bodyText r1 f1.
               getImgs d = Inr imgs
             \<and> videoHTML_of d = Inr video
             \<and> dynamic_link entry d = Inr lnk
             \<and> data_content_of E opt uid entry d = Inr dc
             \<and> (if truthy dc then Inr dc else getDes d) = Inr body
             \<and> to_string body = Inr bodyText
             \<and> getUrl opt entry lnk d = Inr r1
             \<and> getIframe E opt d = Inr f1
             \<and> description it =
                 bodyText @ u ''<br>'' @ fst r1 @ f1
                 @ (if imgs \<noteq> [] then u ''<br>'' @ imgs else [])
                 @ (if video \<noteq> [] then u ''<br>'' @ video else [])"
    if "\<not> truthy origin"
  proof -
    have n: "nameText = []"
      using o no_origin_parts(1) [OF that] by auto
    have r2: "fst r2 = []"
      using g(2) no_origin_parts(2) [OF that, of opt entry "snd r1"] by auto
    have f2: "f2 = []"
      using g(4) no_origin_parts(3) [OF that, of E opt] by auto
    have i: "getImgs d = Inr imgHTML"
      using p(1) no_origin_parts(4) [OF that] by simp
    have "description it =
                 bodyText @ u ''<br>'' @ fst r1 @ f1
                 @ (if imgHTML \<noteq> [] then u ''<br>'' @ imgHTML else [])
                 @ (if video \<noteq> [] then u ''<br>'' @ video else [])"
      unfolding d n r2 f2 by simp
    with i p(2-6) g(1,3) show ?thesis by blast
  qed
  show ?thesis using one two three by blast
qed

text \<open>
  The theorem at a repost of a live room (author name \<^verbatim>\<open>bob\<close>), at a repost of an
  episode (season title \<^verbatim>\<open>N\<close>, no author name), and at the entry of the round trip,
  which has no origin.
\<close>

theorem repost_prefix_witness:
  "(\<exists>it. normalize (sample_env sample_table) no_opts sample_uid sample_author
            entry_repost_live = Inr it
        \<and> sublist (u ''<br><br>'' @ zh_forwarded @ u ''@bob: L<br>'') (description it))
 \<and> (\<exists>it. normalize (sample_env sample_table) no_opts sample_uid sample_author
            entry_repost_episode = Inr it
        \<and> sublist (zh_forwarded @ u ''N'') (description it))
 \<and> (\<exists>it. normalize (sample_env sample_table) no_opts sample_uid sample_author entry_TD = Inr it
        \<and> description it = u ''D<br>'')"
proof -
  let ?E = "sample_env sample_table"
  have lv: "truthy live_payload" "truthy (getOriginName_val live_payload)"
    "to_string (getOriginName_val live_payload) = Inr (u ''bob'')"
    "getOriginTitle (ors [field live_payload (u ''item''), live_payload]) = Inr (u ''L<br>'')"
    "getDes (ors [field live_payload (u ''item''), live_payload]) = Inr (JStr [])"
    by (simp_all add: live_payload_def getOriginName_val_def getOriginTitle_def getDes_def
        or_else_def nullish_def vest_content_def sketch_suffix_def js_add_def)
  have ep: "truthy episode_payload" "\<not> truthy (getOriginName_val episode_payload)"
    "truthy (field (field episode_payload (u ''apiSeasonInfo'')) (u ''title''))"
    "to_string (field (field episode_payload (u ''apiSeasonInfo'')) (u ''title'')) = Inr (u ''N'')"
    by (simp_all add: episode_payload_def getOriginName_val_def)
  obtain it1 where it1: "normalize ?E no_opts sample_uid sample_author entry_repost_live = Inr it1"
    using sample_normalizes(4) by blast
  from repost_prefix [OF it1 sample_parse(4) sample_select(4) sample_origin(4)] lv
  have "sublist (u ''<br><br>'' @ zh_forwarded @ u ''@bob: L<br>'') (description it1)"
    by auto
  with it1 have one: "\<exists>it. normalize ?E no_opts sample_uid sample_author
            entry_repost_live = Inr it
        \<and> sublist (u ''<br><br>'' @ zh_forwarded @ u ''@bob: L<br>'') (description it)"
    by blast
  obtain it2 where
    it2: "normalize ?E no_opts sample_uid sample_author entry_repost_episode = Inr it2"
    using sample_normalizes(5) by blast
  from repost_prefix [OF it2 sample_parse(5) sample_select(5) sample_origin(5)] ep
  have "sublist (zh_forwarded @ u ''N'') (description it2)"
    by auto
  with it2 have two: "\<exists>it. normalize ?E no_opts sample_uid sample_author
            entry_repost_episode = Inr it
        \<and> sublist (zh_forwarded @ u ''N'') (description it)"
    by blast
  obtain it3 where it3: "normalize ?E no_opts sample_uid sample_author entry_TD = Inr it3"
    using sample_normalizes(1) by blast
  from repost_prefix [OF it3 sample_parse(1) sample_select(1) sample_origin(1)]
  have "description it3 = u ''D<br>''"
    by (auto simp: handler_defs sample_defs)
  with it3 have three: "\<exists>it. normalize ?E no_opts sample_uid sample_author entry_TD = Inr it
        \<and> description it = u ''D<br>''"
    by blast
  show ?thesis using one two three by blast
qed

text \<open>
  Claim C9 as the specification words it fails on a text post that is not a
  repost and whose author typed the marker: the entry has no origin, and its
  description contains \<^verbatim>\<open>//...: @bob\<close>.
\<close>

theorem marker_in_plain_post_counterexample:
  "parse_origin (sample_env sample_table) parsed_quote = Inr JNull
 \<and> normalize (sample_env sample_table) no_opts sample_uid sample_author entry_quote
     = Inr \<lparr>title = JStr (zh_forwarded @ u ''@bob''),
            description = zh_forwarded @ u ''@bob'' @ u ''<br>'',
            pubDate = None, link = JStr [], author = sample_author\<rparr>
 \<and> sublist (zh_forwarded @ u ''@bob'') (zh_forwarded @ u ''@bob'' @ u ''<br>'')"
proof -
  have "sublist (zh_forwarded @ u ''@bob'') ([] @ (zh_forwarded @ u ''@bob'') @ u ''<br>'')"
    by (rule sublist_appendI)
  then show ?thesis
    by (simp add: handler_defs sample_defs)
qed

section \<open>Emoji substitution\<close>

text \<open>With \<^verbatim>\<open>showEmoji\<close> off the body text is returned as it is.\<close>

lemma emoji_subst_disabled:
  "\<not> showEmoji opt \<Longrightarrow> \<not> nullish (field entry (u ''display''))
   \<Longrightarrow> emoji_subst opt entry s = Inr s"
  by (simp add: emoji_subst_def get_def)

text \<open>
  Claim C3 does not hold of the code with \<^verbatim>\<open>showEmoji\<close> on. For the token
  \<^verbatim>\<open>[doge]\<close> line 219 builds the pattern \<^verbatim>\<open>\?\?[\?d\?o\?g\?e\?]\?\<close>: two question marks,
  one character out of \<^verbatim>\<open>?\<close>, \<^verbatim>\<open>d\<close>, \<^verbatim>\<open>o\<close>, \<^verbatim>\<open>g\<close>, \<^verbatim>\<open>e\<close>, and a question mark. On the
  body \<^verbatim>\<open>[doge] ??d?\<close> the occurrence of the token is kept, and the text \<^verbatim>\<open>??d?\<close>,
  which is not an occurrence of it, is replaced by the image tag. With
  \<^verbatim>\<open>showEmoji\<close> off the same entry keeps its body.
\<close>

theorem emoji_token_not_replaced:
  \<open>emoji_pattern (JStr (u ''[doge]''))
     = Inr (concat [[92, 63], [92, 63], u ''['', [92, 63], u ''d'', [92, 63], u ''o'', [92, 63],
                    u ''g'', [92, 63], u ''e'', [92, 63], u '']'', [92, 63]])
 \<and> normalize (sample_env sample_table) (no_opts\<lparr>showEmoji := True\<rparr>) sample_uid sample_author
       entry_doge
     = Inr \<lparr>title = JStr (u ''[doge] ??d?''),
            description = u ''[doge] <img alt="[doge]" src="https://i0.hdslb.com/doge.png"style="margin: -1px 1px 0px; display: inline-block; width: 20px; height: 20px; vertical-align: text-bottom;" title="" referrerpolicy="no-referrer"><br>'',
            pubDate = None, link = JStr [], author = sample_author\<rparr>
 \<and> normalize (sample_env sample_table) no_opts sample_uid sample_author entry_doge
     = Inr \<lparr>title = JStr (u ''[doge] ??d?''), description = u ''[doge] ??d?<br>'',
            pubDate = None, link = JStr [], author = sample_author\<rparr>\<close>
  by (simp add: handler_defs sample_defs emoji_pattern_def optional_backslash_to_escaped_qm_def
      new_RegExp_def regexp_replaceAll_def metachars_def emoji_img_def)

section \<open>Missing fields\<close>

text \<open>No entry without a \<^verbatim>\<open>display\<close> record is normalized (line 215).\<close>

lemma emoji_subst_no_display:
  "nullish (field entry (u ''display'')) \<Longrightarrow> emoji_subst opt entry s = Inl TypeError"
  by (simp add: emoji_subst_def get_def)

lemma normalize_needs_display:
  assumes "nullish (field entry (u ''display''))"
  shows "isl (normalize E opt uid auth entry)"
proof -
  have dc: "isl (data_content_of E opt uid entry d)" for d
    unfolding data_content_of_def
    by (rule rbind_isl_all, rule rbind_isl_all) (simp add: emoji_subst_no_display [OF assms])
  have it: "isl (item_of E opt uid auth entry d origin)" for d origin
    unfolding item_of_def
    by (rule rbind_isl_all, rule rbind_isl_all, rule rbind_isl_all) (rule rbind_isl_first [OF dc])
  show ?thesis
    unfolding normalize_def normalize_parsed_def
    by (rule rbind_isl_all, rule rbind_isl_all, rule rbind_isl_all, rule rbind_isl_all)
      (rule it)
qed

text \<open>
  Claim C1 does not hold of the code. The entry of the specification's round
  trip has no \<^verbatim>\<open>display\<close> record, and its normalization throws a \<open>TypeError\<close> at
  \<^verbatim>\<open>item.display.emoji_info\<close>; with an empty \<^verbatim>\<open>display\<close> record added it yields the
  item of the round trip. For a batch whose first entry has a \<^verbatim>\<open>user_profile\<close>
  without \<^verbatim>\<open>info\<close>, and no cached author name, line 134 throws at \<^verbatim>\<open>info.uname\<close>,
  where line 135 reads \<^verbatim>\<open>info?.face\<close> and gets \<^verbatim>\<open>undefined\<close>.
\<close>

theorem normalize_throws_without_display:
  "normalize (sample_env sample_table) no_opts sample_uid sample_author entry_no_display
     = Inl TypeError
 \<and> normalize (sample_env sample_table) no_opts sample_uid sample_author entry_TD
     = Inr \<lparr>title = JStr (u ''T''), description = u ''D<br>'',
            pubDate = Some (JStr (u ''1600000000'')),
            link = JStr (u ''https://t.bilibili.com/123''), author = sample_author\<rparr>
 \<and> resolve_author JUndef cards_no_info = Inl TypeError
 \<and> resolve_face JUndef cards_no_info = Inr JUndef"
  by (simp add: handler_defs sample_defs resolve_author_def resolve_face_def first_profile_def)

section \<open>The batch\<close>










end
